theory Spec2Isabelle
  imports Complex_Main "HOL-Library.Word"
begin

section \<open>Single-precision values\<close>

text \<open>
  The module computes in C \<^verbatim>\<open>float\<close>.  A value is a real number or one of the three
  IEEE special values.  What is modelled of IEEE 754 is everything the special values
  do: a division of a non-zero number by zero is an infinity, \<open>0 / 0\<close>, \<open>\<infinity> - \<infinity>\<close>,
  \<open>0 * \<infinity>\<close> and \<open>\<infinity> / \<infinity>\<close> are NaN, NaN propagates, and every ordered comparison
  with NaN is false.  Every divisor that can be zero in this module is a \<^verbatim>\<open>sqrtf\<close>
  result, an unsigned sample count or an unsigned time difference, so a zero divisor is
  \<open>+0\<close>; the sign of zero is not modelled.

  Arithmetic on two numbers is exact.  The 32-bit format rounds every result to 24
  bits, gives an infinity for a result beyond its largest number (about
  \<open>3.4 \<times> 10\<^sup>3\<^sup>8\<close>) and zero for one below its smallest (about \<open>1.4 \<times> 10\<^sup>-\<^sup>4\<^sup>5\<close>); none of
  this is in \<open>fadd\<close>, \<open>fmul\<close> and \<open>fdiv\<close>.  A theorem below over all numbers is
  therefore about the formula the code evaluates: it holds of the 32-bit computation up
  to rounding, and as long as no intermediate result leaves the range of the format.
  No theorem below concludes from exact arithmetic that a norm stays finite, away from
  zero or near 1.  The runs of the code at a concrete input, other than instances of
  such a formula, produce only small integers, binary fractions, zeros, infinities and
  NaN, which the 32-bit format produces as well.
\<close>

datatype flt = Num real | PInf | NInf | NaN

fun fneg :: "flt \<Rightarrow> flt" where
  "fneg (Num a) = Num (- a)"
| "fneg PInf = NInf"
| "fneg NInf = PInf"
| "fneg NaN = NaN"

fun fadd :: "flt \<Rightarrow> flt \<Rightarrow> flt" where
  "fadd (Num a) (Num b) = Num (a + b)"
| "fadd NaN _ = NaN"
| "fadd _ NaN = NaN"
| "fadd PInf NInf = NaN"
| "fadd NInf PInf = NaN"
| "fadd PInf _ = PInf"
| "fadd _ PInf = PInf"
| "fadd NInf _ = NInf"
| "fadd _ NInf = NInf"

definition fsub :: "flt \<Rightarrow> flt \<Rightarrow> flt" where
  "fsub a b = fadd a (fneg b)"

fun fscale_inf :: "bool \<Rightarrow> real \<Rightarrow> flt" where
  "fscale_inf pos b = (if b = 0 then NaN else if (0 < b) = pos then PInf else NInf)"

fun fmul :: "flt \<Rightarrow> flt \<Rightarrow> flt" where
  "fmul (Num a) (Num b) = Num (a * b)"
| "fmul NaN _ = NaN"
| "fmul _ NaN = NaN"
| "fmul PInf (Num b) = fscale_inf True b"
| "fmul NInf (Num b) = fscale_inf False b"
| "fmul (Num a) PInf = fscale_inf True a"
| "fmul (Num a) NInf = fscale_inf False a"
| "fmul PInf PInf = PInf"
| "fmul NInf NInf = PInf"
| "fmul PInf NInf = NInf"
| "fmul NInf PInf = NInf"

fun fdiv :: "flt \<Rightarrow> flt \<Rightarrow> flt" where
  "fdiv (Num a) (Num b) =
     (if b \<noteq> 0 then Num (a / b)
      else if a = 0 then NaN else if 0 < a then PInf else NInf)"
| "fdiv NaN _ = NaN"
| "fdiv _ NaN = NaN"
| "fdiv (Num a) PInf = Num 0"
| "fdiv (Num a) NInf = Num 0"
| "fdiv PInf (Num b) = (if 0 \<le> b then PInf else NInf)"
| "fdiv NInf (Num b) = (if 0 \<le> b then NInf else PInf)"
| "fdiv PInf PInf = NaN"
| "fdiv PInf NInf = NaN"
| "fdiv NInf PInf = NaN"
| "fdiv NInf NInf = NaN"

fun sqrtf :: "flt \<Rightarrow> flt" where
  "sqrtf (Num a) = (if a < 0 then NaN else Num (sqrt a))"
| "sqrtf PInf = PInf"
| "sqrtf NInf = NaN"
| "sqrtf NaN = NaN"

fun fabs :: "flt \<Rightarrow> flt" where
  "fabs (Num a) = Num \<bar>a\<bar>"
| "fabs PInf = PInf"
| "fabs NInf = PInf"
| "fabs NaN = NaN"

text \<open>The C comparisons \<^verbatim>\<open><\<close> and \<^verbatim>\<open>!=\<close>.\<close>

fun fless :: "flt \<Rightarrow> flt \<Rightarrow> bool" where
  "fless (Num a) (Num b) = (a < b)"
| "fless NaN _ = False"
| "fless _ NaN = False"
| "fless NInf NInf = False"
| "fless NInf _ = True"
| "fless PInf _ = False"
| "fless (Num a) PInf = True"
| "fless (Num a) NInf = False"

fun fneq :: "flt \<Rightarrow> flt \<Rightarrow> bool" where
  "fneq NaN _ = True"
| "fneq _ NaN = True"
| "fneq a b = (a \<noteq> b)"

text \<open>Conversions \<^verbatim>\<open>(float)\<close> from \<^verbatim>\<open>int32_t\<close>, \<^verbatim>\<open>uint32_t\<close> and \<^verbatim>\<open>int16_t\<close>.\<close>

definition float_of_int32 :: "32 word \<Rightarrow> flt" where
  "float_of_int32 w = Num (real_of_int (sint w))"

definition float_of_uint32 :: "32 word \<Rightarrow> flt" where
  "float_of_uint32 w = Num (real (unat w))"

definition float_of_int16 :: "16 word \<Rightarrow> flt" where
  "float_of_int16 w = Num (real_of_int (sint w))"

definition F_PI :: flt where
  "F_PI = Num 3.14159265358979323846"

type_synonym vec3 = "flt \<times> flt \<times> flt"
type_synonym quat = "flt \<times> flt \<times> flt \<times> flt"
type_synonym mat3 = "vec3 \<times> vec3 \<times> vec3"

section \<open>Objects on the bus, queues, alarms\<close>

text \<open>
  The UAVObject records; their declarations are generated and not part of the module,
  and the integer fields of the settings are taken as \<^verbatim>\<open>int16_t\<close>, the type of the
  module's own \<^verbatim>\<open>accelbias\<close>.  Their C fields are \<^verbatim>\<open>x\<close>, \<^verbatim>\<open>y\<close>, \<^verbatim>\<open>z\<close>, \<^verbatim>\<open>temperature\<close>,
  \<^verbatim>\<open>q1\<close> .. \<^verbatim>\<open>q4\<close>, \<^verbatim>\<open>Roll\<close>, \<^verbatim>\<open>Pitch\<close>, \<^verbatim>\<open>Yaw\<close>; the record name is prefixed here to
  keep the fields of different objects apart.
\<close>

record AccelsData =
  accels_x :: flt
  accels_y :: flt
  accels_z :: flt
  accels_temperature :: flt

record GyrosData =
  gyros_x :: flt
  gyros_y :: flt
  gyros_z :: flt
  gyros_temperature :: flt

record MagnetometerData =
  mag_x :: flt
  mag_y :: flt
  mag_z :: flt

record AttitudeActualData =
  att_q1 :: flt
  att_q2 :: flt
  att_q3 :: flt
  att_q4 :: flt
  att_Roll :: flt
  att_Pitch :: flt
  att_Yaw :: flt

record AttitudeSettingsData =
  AccelKp :: flt
  AccelKi :: flt
  YawBiasRate :: flt
  GyroGain :: flt
  ZeroDuringArming :: bool
  BiasCorrectGyro :: bool
  AccelBias :: "16 word \<times> 16 word \<times> 16 word"
  GyroBias :: "16 word \<times> 16 word \<times> 16 word"
  BoardRotation :: "16 word \<times> 16 word \<times> 16 word"

text \<open>
  The structs the drivers fill.  Their declarations are not part of the module; a
  field holds the value the module reads from it, as the \<^verbatim>\<open>int32_t\<close> it becomes in
  \<^verbatim>\<open>accel_accum[0] += accel.x\<close> and in \<^verbatim>\<open>(float) accel.temperature\<close>.
\<close>

record pios_bma180_data =
  bma_x :: "32 word"
  bma_y :: "32 word"
  bma_z :: "32 word"
  bma_temperature :: "32 word"

record pios_mpu6000_data =
  gyro_x :: "32 word"
  gyro_y :: "32 word"
  gyro_z :: "32 word"
  mpu_temperature :: "32 word"

datatype FlightStatusArmed = DISARMED | ARMING | ARMED

datatype alarm = CLEARED | WARNING | ERROR | CRITICAL

text \<open>
  All file-scope variables of \<^verbatim>\<open>attitude.c\<close>, the two queues the estimator reads, the
  objects held by the bus, the two alarms and the two watchdog flags (counted: one
  more for every \<^verbatim>\<open>PIOS_WDG_UpdateFlag\<close>).
\<close>

record module_state =
  accelKi :: flt
  accelKp :: flt
  yawBiasRate :: flt
  gyroGain :: flt
  accelbias :: "16 word \<times> 16 word \<times> 16 word"
  R :: mat3
  rotate :: "8 word"
  zero_during_arming :: bool
  bias_correct_gyro :: bool
  gyro_bias :: vec3
  accel_samples :: "32 word"
  gyro_samples :: "32 word"
  accel :: pios_bma180_data
  gyro :: pios_mpu6000_data
  accel_accum :: "32 word \<times> 32 word \<times> 32 word"
  gyro_accum :: "32 word \<times> 32 word \<times> 32 word"
  scaling :: flt
  accel_mag :: flt
  qmag :: flt
  timeval :: "32 word"
  gyroQueue :: "GyrosData list"
  accelQueue :: "AccelsData list"
  Accels :: AccelsData
  Gyros :: GyrosData
  Magnetometer :: MagnetometerData
  AttitudeActual :: AttitudeActualData
  AttitudeSettings :: AttitudeSettingsData
  FlightStatus :: FlightStatusArmed
  alarm_ATTITUDE :: alarm
  alarm_SENSORS :: alarm
  wdg_SENSORS :: nat
  wdg_ATTITUDE :: nat

definition SENSOR_QUEUE_SIZE :: nat where
  "SENSOR_QUEUE_SIZE = 10"

text \<open>
  \<^verbatim>\<open>xQueueSendToBack(q, item, 0)\<close>: no waiting, the item is refused when the queue holds
  \<^verbatim>\<open>SENSOR_QUEUE_SIZE\<close> items.  \<^verbatim>\<open>xQueueReceive(q, item, 10 / portTICK_RATE_MS)\<close>: the
  oldest item, or no item when none is there to take before the wait ends; the wait
  itself (the other task running meanwhile, the length of 10 ms) is not modelled.
\<close>

definition xQueueSendToBack :: "'a list \<Rightarrow> 'a \<Rightarrow> bool \<times> 'a list" where
  "xQueueSendToBack q item =
     (if length q < SENSOR_QUEUE_SIZE then (True, q @ [item]) else (False, q))"

definition xQueueReceive :: "'a list \<Rightarrow> 'a option \<times> 'a list" where
  "xQueueReceive q = (case q of [] \<Rightarrow> (None, []) | item # rest \<Rightarrow> (Some item, rest))"

section \<open>The estimator: \<^verbatim>\<open>updateAttitudeComplimentary\<close>\<close>

text \<open>
  \<^verbatim>\<open>CoordinateConversions.h\<close> is not part of the module.  \<^verbatim>\<open>Quaternion2RPY\<close>,
  \<^verbatim>\<open>RPY2Quaternion\<close> and \<^verbatim>\<open>Quaternion2R\<close> are parameters of the functions that call them.
\<close>

record coordinate_conversions =
  Quaternion2RPY :: "quat \<Rightarrow> vec3"
  RPY2Quaternion :: "vec3 \<Rightarrow> quat"
  Quaternion2R :: "quat \<Rightarrow> mat3"

text \<open>
  Modelled from the spec: \<^verbatim>\<open>CrossProduct\<close> of \<^verbatim>\<open>CoordinateConversions.h\<close>, which is
  missing from the sources; the spec calls it the 3D cross product of its first two
  arguments.
\<close>

definition CrossProduct :: "vec3 \<Rightarrow> vec3 \<Rightarrow> vec3" where
  "CrossProduct v1 v2 =
     (case v1 of (a0, a1, a2) \<Rightarrow> case v2 of (b0, b1, b2) \<Rightarrow>
        (fsub (fmul a1 b2) (fmul a2 b1),
         fsub (fmul a2 b0) (fmul a0 b2),
         fsub (fmul a0 b1) (fmul a1 b0)))"

text \<open>The clock: what \<^verbatim>\<open>PIOS_DELAY_DiffuS(timeval)\<close> and \<^verbatim>\<open>PIOS_DELAY_GetRaw()\<close> return.\<close>

record delay_clock =
  DiffuS :: "32 word"
  GetRaw :: "32 word"

text \<open>Lines 395 to 397: gravity rotated into the body frame.\<close>

definition grot_of :: "quat \<Rightarrow> vec3" where
  "grot_of q =
     (case q of (q0, q1, q2, q3) \<Rightarrow>
        (fneg (fmul (Num 2) (fsub (fmul q1 q3) (fmul q0 q2))),
         fneg (fmul (Num 2) (fadd (fmul q2 q3) (fmul q0 q1))),
         fneg (fadd (fsub (fsub (fmul q0 q0) (fmul q1 q1)) (fmul q2 q2)) (fmul q3 q3))))"

text \<open>Lines 401 and 402.\<close>

definition accel_mag_of :: "AccelsData \<Rightarrow> flt" where
  "accel_mag_of a =
     sqrtf (fadd (fadd (fmul (accels_x a) (accels_x a)) (fmul (accels_y a) (accels_y a)))
                 (fmul (accels_z a) (accels_z a)))"

text \<open>Lines 398 to 405: the cross product, divided by the magnitude.\<close>

definition accel_err_of :: "AccelsData \<Rightarrow> vec3 \<Rightarrow> vec3" where
  "accel_err_of a grot =
     (case CrossProduct (accels_x a, accels_y a, accels_z a) grot of (e0, e1, e2) \<Rightarrow>
        (fdiv e0 (accel_mag_of a), fdiv e1 (accel_mag_of a), fdiv e2 (accel_mag_of a)))"

text \<open>Lines 408 and 409.\<close>

definition integrate_bias :: "vec3 \<Rightarrow> vec3 \<Rightarrow> flt \<Rightarrow> vec3" where
  "integrate_bias bias accel_err ki =
     (case bias of (b0, b1, b2) \<Rightarrow> case accel_err of (e0, e1, e2) \<Rightarrow>
        (fadd b0 (fmul e0 ki), fadd b1 (fmul e1 ki), b2))"

text \<open>Lines 412 to 414.\<close>

definition correct_rates :: "GyrosData \<Rightarrow> vec3 \<Rightarrow> flt \<Rightarrow> flt \<Rightarrow> vec3" where
  "correct_rates g accel_err kp dT =
     (case accel_err of (e0, e1, e2) \<Rightarrow>
        (fadd (gyros_x g) (fdiv (fmul e0 kp) dT),
         fadd (gyros_y g) (fdiv (fmul e1 kp) dT),
         fadd (gyros_z g) (fdiv (fmul e2 kp) dT)))"

text \<open>Lines 420 to 423; \<^verbatim>\<open>e * dT * F_PI / 180 / 2\<close> associates to the left.\<close>

definition deg_step :: "flt \<Rightarrow> flt \<Rightarrow> flt" where
  "deg_step e dT = fdiv (fdiv (fmul (fmul e dT) F_PI) (Num 180)) (Num 2)"

definition qdot_of :: "quat \<Rightarrow> vec3 \<Rightarrow> flt \<Rightarrow> quat" where
  "qdot_of q w dT =
     (case q of (q0, q1, q2, q3) \<Rightarrow> case w of (wx, wy, wz) \<Rightarrow>
        (deg_step (fsub (fsub (fmul (fneg q1) wx) (fmul q2 wy)) (fmul q3 wz)) dT,
         deg_step (fadd (fsub (fmul q0 wx) (fmul q3 wy)) (fmul q2 wz)) dT,
         deg_step (fsub (fadd (fmul q3 wx) (fmul q0 wy)) (fmul q1 wz)) dT,
         deg_step (fadd (fadd (fmul (fneg q2) wx) (fmul q1 wy)) (fmul q0 wz)) dT))"

text \<open>Lines 426 to 429.\<close>

definition time_step :: "quat \<Rightarrow> quat \<Rightarrow> quat" where
  "time_step q qdot =
     (case q of (q0, q1, q2, q3) \<Rightarrow> case qdot of (d0, d1, d2, d3) \<Rightarrow>
        (fadd q0 d0, fadd q1 d1, fadd q2 d2, fadd q3 d3))"

text \<open>Lines 431 to 436.\<close>

definition positive_hemisphere :: "quat \<Rightarrow> quat" where
  "positive_hemisphere q =
     (case q of (q0, q1, q2, q3) \<Rightarrow>
        if fless q0 (Num 0) then (fneg q0, fneg q1, fneg q2, fneg q3) else q)"

text \<open>Line 439.\<close>

definition qmag_of :: "quat \<Rightarrow> flt" where
  "qmag_of q =
     (case q of (q0, q1, q2, q3) \<Rightarrow>
        sqrtf (fadd (fadd (fadd (fmul q0 q0) (fmul q1 q1)) (fmul q2 q2)) (fmul q3 q3)))"

text \<open>Lines 440 to 452: the division by \<^verbatim>\<open>qmag\<close>, then the reset to the identity.\<close>

definition renormalize :: "quat \<Rightarrow> quat" where
  "renormalize q =
     (case q of (q0, q1, q2, q3) \<Rightarrow>
        let m = qmag_of q;
            qn = (fdiv q0 m, fdiv q1 m, fdiv q2 m, fdiv q3 m)
        in if fless (fabs m) (Num (1 / 1000)) \<or> fneq m m
           then (Num 1, Num 0, Num 0, Num 0) else qn)"

definition quat_of :: "AttitudeActualData \<Rightarrow> quat" where
  "quat_of a = (att_q1 a, att_q2 a, att_q3 a, att_q4 a)"

text \<open>Line 380.\<close>

definition dT_of :: "delay_clock \<Rightarrow> flt" where
  "dT_of clk = fdiv (float_of_uint32 (DiffuS clk)) (Num 1000000)"

text \<open>
  Lines 379 to 463: the step on a gyro sample and an accel sample taken from the queues.
\<close>

definition attitude_step ::
  "coordinate_conversions \<Rightarrow> delay_clock \<Rightarrow> GyrosData \<Rightarrow> AccelsData \<Rightarrow> module_state \<Rightarrow> module_state" where
  "attitude_step cc clk g a st =
     (let dT = dT_of clk;
          q = quat_of (AttitudeActual st);
          grot = grot_of q;
          accel_err = accel_err_of a grot;
          bias = integrate_bias (gyro_bias st) accel_err (accelKi st);
          w = correct_rates g accel_err (accelKp st) dT;
          qdot = qdot_of q w dT;
          qi = time_step q qdot;
          qh = positive_hemisphere qi;
          qn = renormalize qh
      in case qn of (n0, n1, n2, n3) \<Rightarrow> case Quaternion2RPY cc qn of (roll, pitch, yaw) \<Rightarrow>
         st\<lparr>timeval := GetRaw clk,
            accel_mag := accel_mag_of a,
            qmag := qmag_of qh,
            gyro_bias := bias,
            AttitudeActual := (AttitudeActual st)
              \<lparr>att_q1 := n0, att_q2 := n1, att_q3 := n2, att_q4 := n3,
               att_Roll := roll, att_Pitch := pitch, att_Yaw := yaw\<rparr>,
            alarm_ATTITUDE := CLEARED\<rparr>)"

text \<open>
  Lines 368 to 464.  The second receive is attempted only when the first one gave a
  sample (\<^verbatim>\<open>||\<close>); a gyro sample received before the accel receive fails is gone.
\<close>

definition updateAttitudeComplimentary ::
  "coordinate_conversions \<Rightarrow> delay_clock \<Rightarrow> module_state \<Rightarrow> int \<times> module_state" where
  "updateAttitudeComplimentary cc clk st =
     (case xQueueReceive (gyroQueue st) of
        (None, gq) \<Rightarrow> (- 1, st\<lparr>alarm_ATTITUDE := ERROR\<rparr>)
      | (Some gyrosData, gq) \<Rightarrow>
          (case xQueueReceive (accelQueue st) of
             (None, aq) \<Rightarrow> (- 1, st\<lparr>gyroQueue := gq, alarm_ATTITUDE := ERROR\<rparr>)
           | (Some accelsData, aq) \<Rightarrow>
               (0, attitude_step cc clk gyrosData accelsData
                     (st\<lparr>gyroQueue := gq, accelQueue := aq\<rparr>))))"

section \<open>The sensor task\<close>

text \<open>
  The drivers.  \<^verbatim>\<open>PIOS_BMA180_ReadFifo(&accel)\<close> and \<^verbatim>\<open>PIOS_MPU6000_ReadFifo(&gyro)\<close> are
  called many times in a tick: call number \<open>i\<close> of the tick returns a code (0 when a
  sample was read) and leaves a struct behind.  The magnetometer has new data
  (\<open>Some\<close> of the three values \<^verbatim>\<open>PIOS_HMC5883_ReadMag\<close> gives) or not.
\<close>

record sensor_drivers =
  PIOS_BMA180_ReadFifo :: "nat \<Rightarrow> int \<times> pios_bma180_data"
  PIOS_BMA180_GetScale :: flt
  PIOS_MPU6000_ReadFifo :: "nat \<Rightarrow> int \<times> pios_mpu6000_data"
  PIOS_MPU6000_GetScale :: flt
  PIOS_HMC5883 :: "(16 word \<times> 16 word \<times> 16 word) option"

text \<open>
  Lines 284 and 314, \<^verbatim>\<open>while((read_good = ReadFifo(&s)) != 0);\<close>: the loop ends at the
  first call that returns 0, and does not end when no call does.  The result is the
  number of the next call and the struct.
\<close>

partial_function (option) wait_sample :: "(nat \<Rightarrow> int \<times> 's) \<Rightarrow> nat \<Rightarrow> (nat \<times> 's) option" where
  "wait_sample fifo i =
     (if fst (fifo i) \<noteq> 0 then wait_sample fifo (Suc i) else Some (Suc i, snd (fifo i)))"

type_synonym accum = "32 word \<times> 32 word \<times> 32 word"

definition accum_add :: "accum \<Rightarrow> accum \<Rightarrow> accum" where
  "accum_add acc v =
     (case acc of (a0, a1, a2) \<Rightarrow> case v of (v0, v1, v2) \<Rightarrow> (a0 + v0, a1 + v1, a2 + v2))"

text \<open>
  Lines 285 to 293 and 315 to 323, \<^verbatim>\<open>while(read_good == 0) { count++; ... }\<close>.  The
  sums and the count are 32-bit and wrap around.
\<close>

partial_function (option) accumulate ::
  "('s \<Rightarrow> accum) \<Rightarrow> (nat \<Rightarrow> int \<times> 's) \<Rightarrow> nat \<Rightarrow> int \<Rightarrow> 32 word \<Rightarrow> accum \<Rightarrow> 's
     \<Rightarrow> (32 word \<times> accum \<times> 's) option" where
  "accumulate axes fifo i read_good count acc s =
     (if read_good = 0
      then accumulate axes fifo (Suc i) (fst (fifo i)) (count + 1) (accum_add acc (axes s))
             (snd (fifo i))
      else Some (count, acc, s))"

text \<open>
  Lines 275 to 294 and 313 to 324 for one sensor: the sums and the count start at zero
  (lines 275 to 283), the first loop waits for a sample, the second one adds the
  samples up.  The result is the count, the sums and the struct the last call left.
\<close>

definition read_fifo :: "('s \<Rightarrow> accum) \<Rightarrow> (nat \<Rightarrow> int \<times> 's) \<Rightarrow> (32 word \<times> accum \<times> 's) option" where
  "read_fifo axes fifo =
     (case wait_sample fifo 0 of
        None \<Rightarrow> None
      | Some (i, s) \<Rightarrow> accumulate axes fifo i 0 0 (0, 0, 0) s)"

definition accel_axes :: "pios_bma180_data \<Rightarrow> accum" where
  "accel_axes s = (bma_x s, bma_y s, bma_z s)"

definition gyro_axes :: "pios_mpu6000_data \<Rightarrow> accum" where
  "gyro_axes s = (gyro_x s, gyro_y s, gyro_z s)"

text \<open>Lines 296 and 326: the averages, with the channels swapped.\<close>

definition averages :: "accum \<Rightarrow> 32 word \<Rightarrow> vec3" where
  "averages acc samples =
     (case acc of (a0, a1, a2) \<Rightarrow>
        (fdiv (float_of_int32 a1) (float_of_uint32 samples),
         fdiv (float_of_int32 a0) (float_of_uint32 samples),
         fdiv (fneg (float_of_int32 a2)) (float_of_uint32 samples)))"

text \<open>Lines 294 to 310.\<close>

definition accel_stage ::
  "sensor_drivers \<Rightarrow> 32 word \<times> accum \<times> pios_bma180_data \<Rightarrow> module_state \<Rightarrow> module_state" where
  "accel_stage drv r st =
     (case r of (count, acc, a) \<Rightarrow>
      case averages acc count of (accels0, accels1, accels2) \<Rightarrow>
      case accelbias st of (bias0, bias1, bias2) \<Rightarrow>
        let scale = PIOS_BMA180_GetScale drv;
            accelsData = \<lparr>accels_x = fmul (fsub accels0 (float_of_int16 bias0)) scale,
                          accels_y = fmul (fsub accels1 (float_of_int16 bias1)) scale,
                          accels_z = fmul (fsub accels2 (float_of_int16 bias2)) scale,
                          accels_temperature =
                            fadd (Num 25)
                              (fdiv (fsub (float_of_int32 (bma_temperature a)) (Num 2)) (Num 2))\<rparr>;
            sent = xQueueSendToBack (accelQueue st) accelsData
        in st\<lparr>accel_accum := acc, accel_samples := count, accel := a, scaling := scale,
              Accels := accelsData,
              accelQueue := snd sent,
              alarm_ATTITUDE := (if fst sent then alarm_ATTITUDE st else WARNING)\<rparr>)"

text \<open>Lines 324 to 351.\<close>

definition gyro_stage ::
  "sensor_drivers \<Rightarrow> 32 word \<times> accum \<times> pios_mpu6000_data \<Rightarrow> module_state \<Rightarrow> module_state" where
  "gyro_stage drv r st =
     (case r of (count, acc, g) \<Rightarrow>
      case averages acc count of (gyros0, gyros1, gyros2) \<Rightarrow>
      case gyro_bias st of (b0, b1, b2) \<Rightarrow>
        let scale = PIOS_MPU6000_GetScale drv;
            gyrosData = \<lparr>gyros_x = fmul gyros0 scale,
                         gyros_y = fmul gyros1 scale,
                         gyros_z = fmul gyros2 scale,
                         gyros_temperature =
                           fadd (Num 35)
                             (fdiv (fadd (float_of_int32 (mpu_temperature g)) (Num 512)) (Num 340))\<rparr>;
            sent = xQueueSendToBack (gyroQueue st) gyrosData;
            corrected =
              (if bias_correct_gyro st
               then gyrosData\<lparr>gyros_x := fadd (gyros_x gyrosData) b0,
                              gyros_y := fadd (gyros_y gyrosData) b1,
                              gyros_z := fadd (gyros_z gyrosData) b2\<rparr>
               else gyrosData)
        in st\<lparr>gyro_accum := acc, gyro_samples := count, gyro := g, scaling := scale,
              gyroQueue := snd sent,
              alarm_ATTITUDE := (if fst sent then alarm_ATTITUDE st else WARNING),
              Gyros := corrected,
              gyro_bias := (b0, b1, fadd b2 (fmul (fneg (gyros_z corrected)) (yawBiasRate st)))\<rparr>)"

text \<open>Lines 353 to 361; \<^verbatim>\<open>-values[0]\<close> is computed in \<^verbatim>\<open>int\<close>.\<close>

definition mag_stage :: "sensor_drivers \<Rightarrow> module_state \<Rightarrow> module_state" where
  "mag_stage drv st =
     (case PIOS_HMC5883 drv of
        None \<Rightarrow> st
      | Some (v0, v1, v2) \<Rightarrow>
          st\<lparr>Magnetometer := \<lparr>mag_x = Num (real_of_int (- sint v0)),
                               mag_y = Num (real_of_int (- sint v1)),
                               mag_z = Num (real_of_int (- sint v2))\<rparr>\<rparr>)"

text \<open>
  Lines 270 to 364.  The result is \<open>None\<close> when one of the four loops does not end, and
  the return value with the new state otherwise.
\<close>

definition updateSensors :: "sensor_drivers \<Rightarrow> module_state \<Rightarrow> (int \<times> module_state) option" where
  "updateSensors drv st =
     (case read_fifo accel_axes (PIOS_BMA180_ReadFifo drv) of
        None \<Rightarrow> None
      | Some ra \<Rightarrow>
          (case read_fifo gyro_axes (PIOS_MPU6000_ReadFifo drv) of
             None \<Rightarrow> None
           | Some rg \<Rightarrow> Some (0, mag_stage drv (gyro_stage drv rg (accel_stage drv ra st)))))"

text \<open>
  Lines 199 to 220 of \<^verbatim>\<open>SensorTask\<close>.  \<^verbatim>\<open>xTaskGetTickCount()\<close> is called twice; \<open>t1\<close> and
  \<open>t2\<close> are what the two calls return.  \<open>init\<close> is the local variable of the task.
\<close>

definition bootstrap_gains :: "module_state \<Rightarrow> module_state" where
  "bootstrap_gains st = st\<lparr>accelKp := Num 1, accelKi := Num (9 / 10), yawBiasRate := Num (23 / 100)\<rparr>"

definition select_gains :: "nat \<Rightarrow> nat \<Rightarrow> 8 word \<times> module_state \<Rightarrow> 8 word \<times> module_state" where
  "select_gains t1 t2 s =
     (case s of (init, st) \<Rightarrow>
        if t1 < 7000 \<and> t2 > 1000 then (0, bootstrap_gains st)
        else if zero_during_arming st \<and> FlightStatus st = ARMING then (0, bootstrap_gains st)
        else if init = 0
        then (1, st\<lparr>accelKi := AccelKi (AttitudeSettings st),
                    accelKp := AccelKp (AttitudeSettings st),
                    yawBiasRate := YawBiasRate (AttitudeSettings st)\<rparr>)
        else (init, st))"

text \<open>Lines 197 to 231: one turn of the main loop of \<^verbatim>\<open>SensorTask\<close>.\<close>

definition SensorTask_tick ::
  "sensor_drivers \<Rightarrow> nat \<Rightarrow> nat \<Rightarrow> 8 word \<times> module_state \<Rightarrow> (8 word \<times> module_state) option" where
  "SensorTask_tick drv t1 t2 s =
     (case select_gains t1 t2 s of (init, st) \<Rightarrow>
        (case updateSensors drv st of
           None \<Rightarrow> None
         | Some (rc, st') \<Rightarrow>
             Some (init, st'\<lparr>alarm_ATTITUDE := (if rc \<noteq> 0 then ERROR else CLEARED),
                            wdg_SENSORS := Suc (wdg_SENSORS st')\<rparr>)))"

section \<open>Settings and the attitude task\<close>

text \<open>Lines 466 to 504.\<close>

definition settingsUpdatedCb :: "coordinate_conversions \<Rightarrow> module_state \<Rightarrow> module_state" where
  "settingsUpdatedCb cc st =
     (let attitudeSettings = AttitudeSettings st in
      case GyroBias attitudeSettings of (gb0, gb1, gb2) \<Rightarrow>
      case BoardRotation attitudeSettings of (r0, r1, r2) \<Rightarrow>
        let st1 = st\<lparr>accelKp := AccelKp attitudeSettings,
                     accelKi := AccelKi attitudeSettings,
                     yawBiasRate := YawBiasRate attitudeSettings,
                     gyroGain := GyroGain attitudeSettings,
                     zero_during_arming := ZeroDuringArming attitudeSettings,
                     bias_correct_gyro := BiasCorrectGyro attitudeSettings,
                     accelbias := AccelBias attitudeSettings,
                     gyro_bias := (fdiv (float_of_int16 gb0) (Num 100),
                                   fdiv (float_of_int16 gb1) (Num 100),
                                   fdiv (float_of_int16 gb2) (Num 100))\<rparr>
        in if r0 = 0 \<and> r1 = 0 \<and> r2 = 0
           then st1\<lparr>rotate := 0, R := Quaternion2R cc (Num 1, Num 0, Num 0, Num 0)\<rparr>
           else st1\<lparr>R := Quaternion2R cc
                            (RPY2Quaternion cc
                               (float_of_int16 r0, float_of_int16 r1, float_of_int16 r2)),
                    rotate := 1\<rparr>)"

text \<open>Lines 247 to 253: one turn of the main loop of \<^verbatim>\<open>AttitudeTask\<close>.\<close>

definition AttitudeTask_turn :: "coordinate_conversions \<Rightarrow> delay_clock \<Rightarrow> module_state \<Rightarrow> module_state" where
  "AttitudeTask_turn cc clk st =
     (case updateAttitudeComplimentary cc clk st of
        (rc, st') \<Rightarrow> st'\<lparr>wdg_ATTITUDE := Suc (wdg_ATTITUDE st')\<rparr>)"

text \<open>
  The loop never ends; \<open>AttitudeTask_turns\<close> is the state after as many turns as there
  are clock readings, the other task not running in between.
\<close>

fun AttitudeTask_turns :: "coordinate_conversions \<Rightarrow> delay_clock list \<Rightarrow> module_state \<Rightarrow> module_state" where
  "AttitudeTask_turns cc [] st = st"
| "AttitudeTask_turns cc (clk # clks) st = AttitudeTask_turns cc clks (AttitudeTask_turn cc clk st)"

section \<open>Start-up state and concrete inputs\<close>

text \<open>
  The initialisers of the file-scope variables (lines 86 to 97 and 261 to 262; a static
  variable without one is zero).  The defaults of the objects on the bus come from
  their XML definitions, which are not part of the module; they are zero here.
\<close>

definition static_init :: module_state where
  "static_init =
     \<lparr>accelKi = Num 0, accelKp = Num 0, yawBiasRate = Num 0, gyroGain = Num (42 / 100),
      accelbias = (0, 0, 0),
      R = ((Num 0, Num 0, Num 0), (Num 0, Num 0, Num 0), (Num 0, Num 0, Num 0)),
      rotate = 0, zero_during_arming = False, bias_correct_gyro = True,
      gyro_bias = (Num 0, Num 0, Num 0),
      accel_samples = 0, gyro_samples = 0,
      accel = \<lparr>bma_x = 0, bma_y = 0, bma_z = 0, bma_temperature = 0\<rparr>,
      gyro = \<lparr>gyro_x = 0, gyro_y = 0, gyro_z = 0, mpu_temperature = 0\<rparr>,
      accel_accum = (0, 0, 0), gyro_accum = (0, 0, 0),
      scaling = Num 0, accel_mag = Num 0, qmag = Num 0, timeval = 0,
      gyroQueue = [], accelQueue = [],
      Accels = \<lparr>accels_x = Num 0, accels_y = Num 0, accels_z = Num 0,
                 accels_temperature = Num 0\<rparr>,
      Gyros = \<lparr>gyros_x = Num 0, gyros_y = Num 0, gyros_z = Num 0, gyros_temperature = Num 0\<rparr>,
      Magnetometer = \<lparr>mag_x = Num 0, mag_y = Num 0, mag_z = Num 0\<rparr>,
      AttitudeActual = \<lparr>att_q1 = Num 0, att_q2 = Num 0, att_q3 = Num 0, att_q4 = Num 0,
                         att_Roll = Num 0, att_Pitch = Num 0, att_Yaw = Num 0\<rparr>,
      AttitudeSettings = \<lparr>AccelKp = Num 0, AccelKi = Num 0, YawBiasRate = Num 0,
                           GyroGain = Num 0, ZeroDuringArming = False, BiasCorrectGyro = True,
                           AccelBias = (0, 0, 0), GyroBias = (0, 0, 0),
                           BoardRotation = (0, 0, 0)\<rparr>,
      FlightStatus = DISARMED,
      alarm_ATTITUDE = CLEARED, alarm_SENSORS = CLEARED,
      wdg_SENSORS = 0, wdg_ATTITUDE = 0\<rparr>"

text \<open>Lines 141 to 157 of \<^verbatim>\<open>AttitudeInitialize\<close>.\<close>

definition AttitudeInitialize :: "module_state \<Rightarrow> module_state" where
  "AttitudeInitialize st =
     st\<lparr>AttitudeActual :=
          (AttitudeActual st)\<lparr>att_q1 := Num 1, att_q2 := Num 0, att_q3 := Num 0, att_q4 := Num 0\<rparr>,
        gyro_bias := (Num 0, Num 0, Num 0),
        R := ((Num 0, Num 0, Num 0), (Num 0, Num 0, Num 0), (Num 0, Num 0, Num 0))\<rparr>"

definition identity_quat :: quat where
  "identity_quat = (Num 1, Num 0, Num 0, Num 0)"

text \<open>
  Stand-ins for the three library functions in the concrete runs below, where what
  they return plays no part.
\<close>

definition no_conversions :: coordinate_conversions where
  "no_conversions =
     \<lparr>Quaternion2RPY = (\<lambda>q. (Num 0, Num 0, Num 0)),
      RPY2Quaternion = (\<lambda>rpy. (Num 1, Num 0, Num 0, Num 0)),
      Quaternion2R =
        (\<lambda>q. ((Num 1, Num 0, Num 0), (Num 0, Num 1, Num 0), (Num 0, Num 0, Num 1)))\<rparr>"

definition clock_2ms :: delay_clock where
  "clock_2ms = \<lparr>DiffuS = 2000, GetRaw = 0\<rparr>"

text \<open>Samples and states of the concrete runs.\<close>

definition roll_rate :: GyrosData where
  "roll_rate = \<lparr>gyros_x = Num 90, gyros_y = Num 0, gyros_z = Num 0, gyros_temperature = Num 35\<rparr>"

definition zero_accel :: AccelsData where
  "zero_accel =
     \<lparr>accels_x = Num 0, accels_y = Num 0, accels_z = Num 0, accels_temperature = Num 25\<rparr>"

definition free_fall_state :: module_state where
  "free_fall_state =
     (AttitudeInitialize static_init)
       \<lparr>accelKp := Num 1, accelKi := Num (9 / 10),
        gyroQueue := [roll_rate], accelQueue := [zero_accel]\<rparr>"




text \<open>
  A FIFO that has nothing for the first \<open>k\<close> calls, then gives the samples one by one,
  then has nothing again and leaves \<open>final\<close> in the struct.
\<close>

definition fifo_script :: "nat \<Rightarrow> 's list \<Rightarrow> 's \<Rightarrow> nat \<Rightarrow> int \<times> 's" where
  "fifo_script k samples final i =
     (if k \<le> i \<and> i < k + length samples then (0, samples ! (i - k)) else (- 1, final))"

text \<open>
  Raw samples, and drivers on the bench: two accel samples after one empty poll, three
  gyro samples, scales \<open>1/4\<close> and \<open>1/2\<close>, no magnetometer data.  The accel FIFO of
  \<open>dry_drivers\<close> never has a sample.
\<close>

definition raw_accel :: "32 word \<Rightarrow> 32 word \<Rightarrow> 32 word \<Rightarrow> pios_bma180_data" where
  "raw_accel x y z = \<lparr>bma_x = x, bma_y = y, bma_z = z, bma_temperature = 2\<rparr>"

definition raw_gyro :: "32 word \<Rightarrow> 32 word \<Rightarrow> 32 word \<Rightarrow> pios_mpu6000_data" where
  "raw_gyro x y z = \<lparr>gyro_x = x, gyro_y = y, gyro_z = z, mpu_temperature = - 512\<rparr>"

definition bench_drivers :: "pios_bma180_data \<Rightarrow> pios_mpu6000_data \<Rightarrow> sensor_drivers" where
  "bench_drivers a g =
     \<lparr>PIOS_BMA180_ReadFifo = fifo_script 1 (replicate 2 a) a,
      PIOS_BMA180_GetScale = Num (1 / 4),
      PIOS_MPU6000_ReadFifo = fifo_script 0 (replicate 3 g) g,
      PIOS_MPU6000_GetScale = Num (1 / 2),
      PIOS_HMC5883 = None\<rparr>"

definition dry_drivers :: sensor_drivers where
  "dry_drivers =
     \<lparr>PIOS_BMA180_ReadFifo = fifo_script 0 [] (raw_accel 0 0 0),
      PIOS_BMA180_GetScale = Num (1 / 4),
      PIOS_MPU6000_ReadFifo = fifo_script 0 (replicate 3 (raw_gyro 0 0 0)) (raw_gyro 0 0 0),
      PIOS_MPU6000_GetScale = Num (1 / 2),
      PIOS_HMC5883 = None\<rparr>"

text \<open>States of the concrete runs.\<close>

definition biased_state :: module_state where
  "biased_state = static_init\<lparr>accelbias := (10, - 10, 0)\<rparr>"

definition drifting_state :: module_state where
  "drifting_state =
     static_init\<lparr>gyro_bias := (Num 1, Num 2, Num 3), yawBiasRate := Num (1 / 2)\<rparr>"

definition yaw_90 :: mat3 where
  "yaw_90 = ((Num 0, Num 1, Num 0), (Num (- 1), Num 0, Num 0), (Num 0, Num 0, Num 1))"

definition rotated_state :: module_state where
  "rotated_state =
     static_init\<lparr>rotate := 1, R := yaw_90,
       AttitudeSettings := (AttitudeSettings static_init)\<lparr>BoardRotation := (0, 0, 90)\<rparr>\<rparr>"

definition cruise_state :: module_state where
  "cruise_state =
     static_init\<lparr>accelKp := Num 5, accelKi := Num 6, yawBiasRate := Num 7,
       AttitudeSettings := (AttitudeSettings static_init)
          \<lparr>AccelKp := Num 2, AccelKi := Num 3, YawBiasRate := Num 4\<rparr>\<rparr>"

text \<open>
  The state a failed receive leaves: the alarm is set, and a gyro sample that was
  received before the accel receive failed has left its queue.
\<close>

definition timed_out :: "module_state \<Rightarrow> module_state" where
  "timed_out st =
     (if gyroQueue st = [] then st else st\<lparr>gyroQueue := tl (gyroQueue st)\<rparr>)
       \<lparr>alarm_ATTITUDE := ERROR\<rparr>"

section \<open>Predicates of the statements\<close>

text \<open>
  A quaternion of numbers whose norm is within \<open>10\<^sup>-\<^sup>4\<close> of 1 and whose first component is
  not negative.
\<close>

fun is_num :: "flt \<Rightarrow> bool" where
  "is_num (Num a) = True"
| "is_num _ = False"

fun num :: "flt \<Rightarrow> real" where
  "num (Num a) = a"
| "num _ = 0"

definition quat_norm :: "quat \<Rightarrow> real" where
  "quat_norm q =
     (case q of (q0, q1, q2, q3) \<Rightarrow>
        sqrt (num q0 * num q0 + num q1 * num q1 + num q2 * num q2 + num q3 * num q3))"

definition canonical_unit :: "quat \<Rightarrow> bool" where
  "canonical_unit q =
     (case q of (q0, q1, q2, q3) \<Rightarrow>
        is_num q0 \<and> is_num q1 \<and> is_num q2 \<and> is_num q3
        \<and> 1 - 1 / 10000 \<le> quat_norm q \<and> quat_norm q \<le> 1 + 1 / 10000
        \<and> 0 \<le> num q0)"

text \<open>
  What the calls of a driver's \<^verbatim>\<open>ReadFifo\<close> do in a tick that ends: \<open>k\<close> calls without a
  sample, then one call for each sample of a non-empty list, then a call without a
  sample that leaves \<open>final\<close> in the struct.
\<close>

definition fifo_burst :: "(nat \<Rightarrow> int \<times> 's) \<Rightarrow> nat \<Rightarrow> 's list \<Rightarrow> 's \<Rightarrow> bool" where
  "fifo_burst fifo k samples final =
     (samples \<noteq> []
      \<and> list_all (\<lambda>j. fst (fifo j) \<noteq> 0) [0..<k]
      \<and> map fifo [k..<k + length samples] = map (Pair 0) samples
      \<and> fst (fifo (k + length samples)) \<noteq> 0
      \<and> snd (fifo (k + length samples)) = final)"

text \<open>The sums of the axes, from a start value, and what they hold without overflow.\<close>

definition accum_sum :: "accum list \<Rightarrow> accum \<Rightarrow> accum" where
  "accum_sum vs acc = fold (\<lambda>v a. accum_add a v) vs acc"

definition sums_fit :: "nat \<Rightarrow> accum \<Rightarrow> bool" where
  "sums_fit n v =
     (case v of (a, b, c) \<Rightarrow>
        n < 2 ^ 32 \<and> int n * \<bar>sint a\<bar> < 2 ^ 31 \<and> int n * \<bar>sint b\<bar> < 2 ^ 31
        \<and> int n * \<bar>sint c\<bar> < 2 ^ 31)"

text \<open>The gyro averages times the driver's scale: the sample before any bias.\<close>

definition scaled_gyros :: "sensor_drivers \<Rightarrow> accum \<Rightarrow> 32 word \<Rightarrow> vec3" where
  "scaled_gyros drv acc samples =
     (case averages acc samples of
        (g0, g1, g2) \<Rightarrow>
          (fmul g0 (PIOS_MPU6000_GetScale drv), fmul g1 (PIOS_MPU6000_GetScale drv),
           fmul g2 (PIOS_MPU6000_GetScale drv)))"

text \<open>One of the two overrides of the gains is active.\<close>

definition override :: "nat \<Rightarrow> nat \<Rightarrow> module_state \<Rightarrow> bool" where
  "override t1 t2 st =
     ((t1 < 7000 \<and> 1000 < t2) \<or> (zero_during_arming st \<and> FlightStatus st = ARMING))"

text \<open>What a tick that returns leaves on the bus, in the queues and in the counters.\<close>

definition accels_vec :: "AccelsData \<Rightarrow> vec3" where
  "accels_vec a = (accels_x a, accels_y a, accels_z a)"

definition gyros_vec :: "GyrosData \<Rightarrow> vec3" where
  "gyros_vec g = (gyros_x g, gyros_y g, gyros_z g)"

definition tick_Accels :: "(int \<times> module_state) option \<Rightarrow> vec3 option" where
  "tick_Accels r = map_option (\<lambda>p. accels_vec (Accels (snd p))) r"

definition tick_Gyros :: "(int \<times> module_state) option \<Rightarrow> vec3 option" where
  "tick_Gyros r = map_option (\<lambda>p. gyros_vec (Gyros (snd p))) r"

definition tick_gyroQueue :: "(int \<times> module_state) option \<Rightarrow> vec3 list option" where
  "tick_gyroQueue r = map_option (\<lambda>p. map gyros_vec (gyroQueue (snd p))) r"

definition tick_accelQueue :: "(int \<times> module_state) option \<Rightarrow> vec3 list option" where
  "tick_accelQueue r = map_option (\<lambda>p. map accels_vec (accelQueue (snd p))) r"

definition tick_gyro_bias :: "(int \<times> module_state) option \<Rightarrow> vec3 option" where
  "tick_gyro_bias r = map_option (\<lambda>p. gyro_bias (snd p)) r"

definition tick_samples :: "(int \<times> module_state) option \<Rightarrow> (int \<times> nat \<times> nat) option" where
  "tick_samples r =
     map_option (\<lambda>p. (fst p, unat (accel_samples (snd p)), unat (gyro_samples (snd p)))) r"

definition tick_alarm :: "(8 word \<times> module_state) option \<Rightarrow> alarm option" where
  "tick_alarm r = map_option (\<lambda>p. alarm_ATTITUDE (snd p)) r"

section \<open>The estimator step\<close>

lemma attitude_step_quat:
  "quat_of (AttitudeActual (attitude_step cc clk g a st)) =
     renormalize (positive_hemisphere
       (time_step (quat_of (AttitudeActual st))
          (qdot_of (quat_of (AttitudeActual st))
             (correct_rates g (accel_err_of a (grot_of (quat_of (AttitudeActual st))))
                (accelKp st) (dT_of clk))
             (dT_of clk))))"
  by (simp add: attitude_step_def Let_def quat_of_def split: prod.splits)

subsection \<open>Renormalisation\<close>

lemma canonical_identity: "canonical_unit (Num 1, Num 0, Num 0, Num 0)"
  by (simp add: canonical_unit_def quat_norm_def)

lemma renormalize_reset:
  "fless (fabs (qmag_of q)) (Num (1 / 1000)) \<or> fneq (qmag_of q) (qmag_of q)
     \<Longrightarrow> renormalize q = (Num 1, Num 0, Num 0, Num 0)"
  by (cases q) (simp add: renormalize_def Let_def)


lemma deg_step_Num: "deg_step (Num e) (Num d) = Num (e * d * (3.14159265358979323846 / 360))"
  by (simp add: deg_step_def F_PI_def)

text \<open>
  C4.  On numbers, the gravity vector in the body frame is
  \<open>(-2 (q1 q3 - q0 q2), -2 (q2 q3 + q0 q1), -(q0\<^sup>2 - q1\<^sup>2 - q2\<^sup>2 + q3\<^sup>2))\<close>, and the time step
  adds to each component of the quaternion the skew product of the quaternion with the
  rates, times \<open>dT\<close> times \<^verbatim>\<open>F_PI\<close>\<open> / 360\<close>, where \<^verbatim>\<open>F_PI\<close> is the module's constant for
  \<open>\<pi>\<close>.  The quaternion a step publishes is this sum for the rates corrected by the
  accelerometer error, flipped to the positive hemisphere and renormalised.
\<close>

theorem gravity_and_euler_step:
  "grot_of (Num q0, Num q1, Num q2, Num q3) =
     (Num (- (2 * (q1 * q3 - q0 * q2))), Num (- (2 * (q2 * q3 + q0 * q1))),
      Num (- (q0 * q0 - q1 * q1 - q2 * q2 + q3 * q3)))
   \<and> time_step (Num q0, Num q1, Num q2, Num q3)
        (qdot_of (Num q0, Num q1, Num q2, Num q3) (Num wx, Num wy, Num wz) (Num dT)) =
     (Num (q0 + (- q1 * wx - q2 * wy - q3 * wz) * dT * (3.14159265358979323846 / 360)),
      Num (q1 + (q0 * wx - q3 * wy + q2 * wz) * dT * (3.14159265358979323846 / 360)),
      Num (q2 + (q3 * wx + q0 * wy - q1 * wz) * dT * (3.14159265358979323846 / 360)),
      Num (q3 + (- q2 * wx + q1 * wy + q0 * wz) * dT * (3.14159265358979323846 / 360)))
   \<and> quat_of (AttitudeActual (attitude_step cc clk g a st)) =
       renormalize (positive_hemisphere
         (time_step (quat_of (AttitudeActual st))
            (qdot_of (quat_of (AttitudeActual st))
               (correct_rates g (accel_err_of a (grot_of (quat_of (AttitudeActual st))))
                  (accelKp st) (dT_of clk))
               (dT_of clk))))"
proof (intro conjI)
  show "grot_of (Num q0, Num q1, Num q2, Num q3) =
     (Num (- (2 * (q1 * q3 - q0 * q2))), Num (- (2 * (q2 * q3 + q0 * q1))),
      Num (- (q0 * q0 - q1 * q1 - q2 * q2 + q3 * q3)))"
    by (simp add: grot_of_def fsub_def)
next
  show "time_step (Num q0, Num q1, Num q2, Num q3)
        (qdot_of (Num q0, Num q1, Num q2, Num q3) (Num wx, Num wy, Num wz) (Num dT)) =
     (Num (q0 + (- q1 * wx - q2 * wy - q3 * wz) * dT * (3.14159265358979323846 / 360)),
      Num (q1 + (q0 * wx - q3 * wy + q2 * wz) * dT * (3.14159265358979323846 / 360)),
      Num (q2 + (q3 * wx + q0 * wy - q1 * wz) * dT * (3.14159265358979323846 / 360)),
      Num (q3 + (- q2 * wx + q1 * wy + q0 * wz) * dT * (3.14159265358979323846 / 360)))"
    by (simp add: time_step_def qdot_of_def fsub_def deg_step_Num)
next
  show "quat_of (AttitudeActual (attitude_step cc clk g a st)) =
       renormalize (positive_hemisphere
         (time_step (quat_of (AttitudeActual st))
            (qdot_of (quat_of (AttitudeActual st))
               (correct_rates g (accel_err_of a (grot_of (quat_of (AttitudeActual st))))
                  (accelKp st) (dT_of clk))
               (dT_of clk))))"
    by (rule attitude_step_quat)
qed

theorem gravity_and_euler_step_witness:
  "grot_of (Num 1, Num 0, Num 0, Num 0) = (Num 0, Num 0, Num (- 1))
   \<and> time_step (Num 1, Num 0, Num 0, Num 0)
        (qdot_of (Num 1, Num 0, Num 0, Num 0) (Num 90, Num 0, Num 0) (Num (1 / 500))) =
     (Num 1, Num (90 * (1 / 500) * (3.14159265358979323846 / 360)), Num 0, Num 0)"
  using gravity_and_euler_step [of 1 0 0 0 90 0 0 "1 / 500"] by simp

text \<open>
  C10.  When the gyro queue or the accel queue has no sample to give, the function
  returns -1 with the alarm at ERROR; the attitude record, with the quaternion in it,
  and the gyro bias are what they were.  The task's loop then strokes the watchdog and
  makes its next turn from that state, calling the function again.
\<close>

theorem queue_timeout_keeps_attitude:
  assumes "gyroQueue st = [] \<or> accelQueue st = []"
  shows "updateAttitudeComplimentary cc clk st = (- 1, timed_out st)
         \<and> AttitudeActual (timed_out st) = AttitudeActual st
         \<and> gyro_bias (timed_out st) = gyro_bias st
         \<and> alarm_ATTITUDE (timed_out st) = ERROR
         \<and> AttitudeTask_turns cc (clk # clks) st =
             AttitudeTask_turns cc clks
               ((timed_out st)\<lparr>wdg_ATTITUDE := Suc (wdg_ATTITUDE st)\<rparr>)"
  using assms
  by (cases "gyroQueue st"; cases "accelQueue st")
     (simp_all add: updateAttitudeComplimentary_def xQueueReceive_def AttitudeTask_turn_def
        timed_out_def)

theorem queue_timeout_keeps_attitude_witness:
  "updateAttitudeComplimentary no_conversions clock_2ms (AttitudeInitialize static_init) =
     (- 1, timed_out (AttitudeInitialize static_init))
   \<and> quat_of (AttitudeActual (timed_out (AttitudeInitialize static_init))) = identity_quat
   \<and> alarm_ATTITUDE (timed_out (AttitudeInitialize static_init)) = ERROR"
  using queue_timeout_keeps_attitude [of "AttitudeInitialize static_init" no_conversions
            clock_2ms "[]"]
  by (simp add: AttitudeInitialize_def static_init_def quat_of_def identity_quat_def)

text \<open>
  C1.  With the accelerometer sample \<open>(0, 0, 0)\<close> the step does not skip the
  correction.  The magnitude is 0 and the step divides the error by it: the error is
  NaN in each component, the bias update is made and leaves NaN in the x and y bias,
  and the norm of the integrated quaternion is NaN, so that the reset publishes the
  identity instead of the quaternion integrated from the gyro rates.
\<close>

theorem zero_accel_divides_by_zero:
  "accel_mag_of zero_accel = Num 0
   \<and> accel_err_of zero_accel (grot_of (quat_of (AttitudeActual free_fall_state))) = (NaN, NaN, NaN)
   \<and> gyro_bias free_fall_state = (Num 0, Num 0, Num 0)
   \<and> gyro_bias (snd (updateAttitudeComplimentary no_conversions clock_2ms free_fall_state)) =
        (NaN, NaN, Num 0)
   \<and> qmag (snd (updateAttitudeComplimentary no_conversions clock_2ms free_fall_state)) = NaN
   \<and> quat_of (AttitudeActual
        (snd (updateAttitudeComplimentary no_conversions clock_2ms free_fall_state))) =
        identity_quat"
  by (simp add: free_fall_state_def zero_accel_def roll_rate_def updateAttitudeComplimentary_def
      xQueueReceive_def
      attitude_step_def Let_def accel_mag_of_def accel_err_of_def CrossProduct_def grot_of_def
      identity_quat_def fsub_def integrate_bias_def AttitudeInitialize_def static_init_def
      quat_of_def correct_rates_def dT_of_def float_of_uint32_def qdot_of_def deg_step_def
      time_step_def positive_hemisphere_def renormalize_def qmag_of_def no_conversions_def
      clock_2ms_def F_PI_def)



section \<open>The sensor tick\<close>

subsection \<open>The two loops on a FIFO\<close>

lemma wait_sample_skips:
  "(\<And>j. j < k \<Longrightarrow> fst (fifo (i + j)) \<noteq> 0) \<Longrightarrow> fst (fifo (i + k)) = 0 \<Longrightarrow>
     wait_sample fifo i = Some (Suc (i + k), snd (fifo (i + k)))"
proof (induction k arbitrary: i)
  case 0
  then show ?case by (subst wait_sample.simps) simp
next
  case (Suc k)
  have "fst (fifo i) \<noteq> 0" using Suc.prems(1) [of 0] by simp
  moreover have "wait_sample fifo (Suc i) = Some (Suc (Suc i + k), snd (fifo (Suc i + k)))"
  proof (rule Suc.IH)
    fix j assume "j < k"
    then show "fst (fifo (Suc i + j)) \<noteq> 0" using Suc.prems(1) [of "Suc j"] by simp
  next
    show "fst (fifo (Suc i + k)) = 0" using Suc.prems(2) by simp
  qed
  ultimately show ?case by (subst wait_sample.simps) simp
qed

lemma accumulate_drains:
  "(\<And>j. j < length xs \<Longrightarrow> fifo (i + j) = (0, xs ! j)) \<Longrightarrow> fst (fifo (i + length xs)) \<noteq> 0 \<Longrightarrow>
     accumulate axes fifo i 0 count acc s =
       Some (count + 1 + of_nat (length xs), accum_sum (map axes (s # xs)) acc,
             snd (fifo (i + length xs)))"
proof (induction xs arbitrary: i count acc s)
  case Nil
  then show ?case
    by (subst accumulate.simps, subst accumulate.simps) (simp add: accum_sum_def)
next
  case (Cons x xs)
  have h: "fifo i = (0, x)" using Cons.prems(1) [of 0] by simp
  have t: "\<And>j. j < length xs \<Longrightarrow> fifo (Suc i + j) = (0, xs ! j)"
    using Cons.prems(1) [of "Suc j" for j] by simp
  have n: "fst (fifo (Suc i + length xs)) \<noteq> 0" using Cons.prems(2) by simp
  show ?case
    by (subst accumulate.simps) (simp add: h Cons.IH [OF t n] accum_sum_def)
qed

lemma read_fifo_burst:
  assumes "fifo_burst fifo k samples final"
  shows "read_fifo axes fifo =
           Some (of_nat (length samples), accum_sum (map axes samples) (0, 0, 0), final)"
proof -
  obtain s xs where sx: "samples = s # xs" using assms by (cases samples) (simp_all add: fifo_burst_def)
  have skip: "\<And>j. j < k \<Longrightarrow> fst (fifo (0 + j)) \<noteq> 0"
    using assms by (simp add: fifo_burst_def list_all_iff)
  have m: "map fifo [k..<k + length samples] = map (Pair 0) samples"
    and e: "fst (fifo (k + length samples)) \<noteq> 0" and l: "snd (fifo (k + length samples)) = final"
    using assms by (simp_all add: fifo_burst_def)
  have nth: "\<And>j. j < length samples \<Longrightarrow> fifo (k + j) = (0, samples ! j)"
  proof -
    fix j assume j: "j < length samples"
    have "map fifo [k..<k + length samples] ! j = fifo (k + j)" using j by simp
    moreover have "map (Pair 0) samples ! j = (0, samples ! j)" using j by simp
    ultimately show "fifo (k + j) = (0, samples ! j)" using m by metis
  qed
  have f: "fifo k = (0, s)" using nth [of 0] by (simp add: sx)
  have t: "\<And>j. j < length xs \<Longrightarrow> fifo (Suc k + j) = (0, xs ! j)"
    using nth [of "Suc j" for j] by (simp add: sx)
  have w: "wait_sample fifo 0 = Some (Suc k, s)"
    using wait_sample_skips [of k fifo 0] skip f by simp
  have e': "fst (fifo (Suc k + length xs)) \<noteq> 0" using e by (simp add: sx)
  show ?thesis
    using accumulate_drains [of xs fifo "Suc k" axes 0 "(0, 0, 0)" s] t e' l
    by (simp add: read_fifo_def w sx)
qed

lemma fifo_script_burst: "samples \<noteq> [] \<Longrightarrow> fifo_burst (fifo_script k samples final) k samples final"
  by (auto simp: fifo_burst_def fifo_script_def list_all_iff intro!: nth_equalityI)

lemma wait_sample_found:
  "wait_sample fifo i = Some r \<Longrightarrow> \<exists>j. fst (fifo j) = 0"
  by (rule wait_sample.raw_induct [rotated 1]) (auto split: if_splits)

lemma wait_sample_never: "(\<And>j. fst (fifo j) \<noteq> 0) \<Longrightarrow> wait_sample fifo i = None"
  using wait_sample_found [of fifo i] by (cases "wait_sample fifo i") auto

lemma read_fifo_never: "(\<And>j. fst (fifo j) \<noteq> 0) \<Longrightarrow> read_fifo axes fifo = None"
  by (simp add: read_fifo_def wait_sample_never)

subsection \<open>Sums and averages\<close>

lemma sint_scaled:
  assumes "int n * \<bar>sint a\<bar> < 2 ^ 31"
  shows "sint (of_nat n * a :: 32 word) = int n * sint a"
proof -
  have eq: "(of_nat n * a :: 32 word) = word_of_int (int n * sint a)"
    by simp
  have b: "\<bar>int n * sint a\<bar> < 2 ^ 31" using assms by (simp add: abs_mult)
  have w: "sint (word_of_int k :: 32 word) = signed_take_bit 31 k" for k
    by (simp add: signed_of_int)
  have "signed_take_bit 31 (int n * sint a) = int n * sint a"
    using b by (intro signed_take_bit_int_eq_self) linarith+
  then show ?thesis by (simp only: eq w)
qed

lemma unat_count: "n < 2 ^ 32 \<Longrightarrow> unat (of_nat n :: 32 word) = n"
  by (simp add: unat_of_nat take_bit_nat_eq_self)

lemma count_nonzero:
  assumes "0 < n" and "n < 2 ^ 32"
  shows "float_of_uint32 (of_nat n) \<noteq> Num 0"
proof -
  have "unat (of_nat n :: 32 word) = n" using assms(2) by (rule unat_count)
  then show ?thesis
    unfolding float_of_uint32_def using assms(1) by (simp only: flt.inject)
qed

lemma average_axis:
  assumes "0 < n" and "n < 2 ^ 32" and "int n * \<bar>sint a\<bar> < 2 ^ 31"
  shows "fdiv (float_of_int32 (of_nat n * a)) (float_of_uint32 (of_nat n)) = Num (real_of_int (sint a))"
    and "fdiv (fneg (float_of_int32 (of_nat n * a))) (float_of_uint32 (of_nat n)) = Num (- real_of_int (sint a))"
  using assms by (simp_all add: float_of_int32_def float_of_uint32_def sint_scaled unat_count)

lemma accum_sum_replicate:
  "accum_sum (replicate n (a, b, c)) (x, y, z) = (x + of_nat n * a, y + of_nat n * b, z + of_nat n * c)"
  by (induction n arbitrary: x y z) (simp_all add: accum_sum_def accum_add_def algebra_simps)

lemma averages_replicate:
  assumes "0 < n" and "axes s = (a, b, c)" and "sums_fit n (a, b, c)"
  shows "averages (accum_sum (map axes (replicate n s)) (0, 0, 0)) (of_nat n) =
           (Num (real_of_int (sint b)), Num (real_of_int (sint a)), Num (- real_of_int (sint c)))"
  using assms
  by (simp add: averages_def accum_sum_replicate sums_fit_def average_axis)

subsection \<open>The stages of a tick\<close>

lemma updateSensors_burst:
  assumes "fifo_burst (PIOS_BMA180_ReadFifo drv) ka as la"
    and "fifo_burst (PIOS_MPU6000_ReadFifo drv) kg gs lg"
  shows "updateSensors drv st =
     Some (0, mag_stage drv
       (gyro_stage drv (of_nat (length gs), accum_sum (map gyro_axes gs) (0, 0, 0), lg)
          (accel_stage drv (of_nat (length as), accum_sum (map accel_axes as) (0, 0, 0), la) st)))"
  by (simp add: updateSensors_def read_fifo_burst [OF assms(1)] read_fifo_burst [OF assms(2)])

lemma updateSensors_rc: "updateSensors drv st = Some (rc, st') \<Longrightarrow> rc = 0"
  by (auto simp: updateSensors_def split: option.splits)

lemma updateSensors_stages:
  assumes "updateSensors drv st = Some (rc, st')"
  shows "\<exists>ra rg. st' = mag_stage drv (gyro_stage drv rg (accel_stage drv ra st))"
proof -
  obtain ra where ra: "read_fifo accel_axes (PIOS_BMA180_ReadFifo drv) = Some ra"
    using assms by (cases "read_fifo accel_axes (PIOS_BMA180_ReadFifo drv)")
      (simp_all add: updateSensors_def)
  obtain rg where rg: "read_fifo gyro_axes (PIOS_MPU6000_ReadFifo drv) = Some rg"
    using assms ra by (cases "read_fifo gyro_axes (PIOS_MPU6000_ReadFifo drv)")
      (simp_all add: updateSensors_def)
  have "st' = mag_stage drv (gyro_stage drv rg (accel_stage drv ra st))"
    using assms by (simp add: updateSensors_def ra rg)
  then show ?thesis by blast
qed

lemma updateSensors_dry:
  "(\<forall>j. fst (PIOS_BMA180_ReadFifo d j) \<noteq> 0) \<or> (\<forall>j. fst (PIOS_MPU6000_ReadFifo d j) \<noteq> 0)
     \<Longrightarrow> updateSensors d st = None"
  by (auto simp: updateSensors_def read_fifo_never split: option.splits)

lemma fmul_fneg: "fmul (fneg a) b = fneg (fmul a b)"
  by (cases a; cases b) auto

lemma mag_stage_keeps:
  "Accels (mag_stage drv st) = Accels st" "Gyros (mag_stage drv st) = Gyros st"
  "gyroQueue (mag_stage drv st) = gyroQueue st" "accelQueue (mag_stage drv st) = accelQueue st"
  "gyro_bias (mag_stage drv st) = gyro_bias st"
  "accel_samples (mag_stage drv st) = accel_samples st"
  "gyro_samples (mag_stage drv st) = gyro_samples st"
  "accel_accum (mag_stage drv st) = accel_accum st"
  "gyro_accum (mag_stage drv st) = gyro_accum st"
  "alarm_ATTITUDE (mag_stage drv st) = alarm_ATTITUDE st"
  "wdg_SENSORS (mag_stage drv st) = wdg_SENSORS st"
  by (simp_all add: mag_stage_def split: option.splits prod.splits)

lemma accel_stage_keeps:
  "gyro_bias (accel_stage drv r st) = gyro_bias st"
  "gyroQueue (accel_stage drv r st) = gyroQueue st"
  "bias_correct_gyro (accel_stage drv r st) = bias_correct_gyro st"
  "yawBiasRate (accel_stage drv r st) = yawBiasRate st"
  "wdg_SENSORS (accel_stage drv r st) = wdg_SENSORS st"
  by (simp_all add: accel_stage_def Let_def split: prod.splits)

lemma gyro_stage_keeps:
  "Accels (gyro_stage drv r st) = Accels st"
  "accelQueue (gyro_stage drv r st) = accelQueue st"
  "accel_samples (gyro_stage drv r st) = accel_samples st"
  "accel_accum (gyro_stage drv r st) = accel_accum st"
  "wdg_SENSORS (gyro_stage drv r st) = wdg_SENSORS st"
  by (simp_all add: gyro_stage_def Let_def split: prod.splits)

lemma gyro_stage_samples:
  "gyro_samples (gyro_stage drv (c, acc, g) st) = c"
  "gyro_accum (gyro_stage drv (c, acc, g) st) = acc"
  by (simp_all add: gyro_stage_def Let_def split: prod.splits)

lemma accel_stage_samples:
  "accel_samples (accel_stage drv (c, acc, a) st) = c"
  "accel_accum (accel_stage drv (c, acc, a) st) = acc"
  by (simp_all add: accel_stage_def Let_def split: prod.splits)

lemma gyro_stage_wdg: "wdg_SENSORS (gyro_stage drv r st) = wdg_SENSORS st"
  by (simp add: gyro_stage_def Let_def split: prod.splits)

lemma select_gains_wdg: "wdg_SENSORS (snd (select_gains t1 t2 (init, st))) = wdg_SENSORS st"
  by (simp add: select_gains_def bootstrap_gains_def)

lemma accel_stage_replicate:
  assumes "0 < n" and "sums_fit n (accel_axes sa)"
    and "PIOS_BMA180_GetScale drv = Num ascale" and "accelbias st = (b0, b1, b2)"
  shows "accels_vec (Accels (accel_stage drv
            (of_nat n, accum_sum (map accel_axes (replicate n sa)) (0, 0, 0), la) st)) =
         (Num ((real_of_int (sint (bma_y sa)) - real_of_int (sint b0)) * ascale),
          Num ((real_of_int (sint (bma_x sa)) - real_of_int (sint b1)) * ascale),
          Num ((- real_of_int (sint (bma_z sa)) - real_of_int (sint b2)) * ascale))"
proof -
  have av: "averages (accum_sum (map accel_axes (replicate n sa)) (0, 0, 0)) (of_nat n) =
       (Num (real_of_int (sint (bma_y sa))), Num (real_of_int (sint (bma_x sa))),
        Num (- real_of_int (sint (bma_z sa))))"
    using averages_replicate [of n accel_axes sa "bma_x sa" "bma_y sa" "bma_z sa"] assms(1,2)
    by (simp add: accel_axes_def)
  show ?thesis
    using av
    by (simp add: accel_stage_def Let_def assms(3,4) accels_vec_def fsub_def float_of_int16_def)
qed

lemma stages_ignore_rotation:
  "Accels (accel_stage drv ra (st\<lparr>rotate := r, R := m\<rparr>)) = Accels (accel_stage drv ra st)"
  "accelQueue (accel_stage drv ra (st\<lparr>rotate := r, R := m\<rparr>)) = accelQueue (accel_stage drv ra st)"
  "Gyros (gyro_stage drv rg (accel_stage drv ra (st\<lparr>rotate := r, R := m\<rparr>))) =
     Gyros (gyro_stage drv rg (accel_stage drv ra st))"
  "gyroQueue (gyro_stage drv rg (accel_stage drv ra (st\<lparr>rotate := r, R := m\<rparr>))) =
     gyroQueue (gyro_stage drv rg (accel_stage drv ra st))"
  by (simp_all add: accel_stage_def gyro_stage_def Let_def split: prod.splits)

lemma bench_bursts:
  "fifo_burst (PIOS_BMA180_ReadFifo (bench_drivers a g)) 1 (replicate 2 a) a"
  "fifo_burst (PIOS_MPU6000_ReadFifo (bench_drivers a g)) 0 (replicate 3 g) g"
  by (simp_all add: bench_drivers_def fifo_script_burst)

lemma bench_fit: "sums_fit 2 (accel_axes (raw_accel 10 (- 10) 7))" "sums_fit 3 (gyro_axes (raw_gyro 4 6 8))"
  by (simp_all add: sums_fit_def accel_axes_def gyro_axes_def raw_accel_def raw_gyro_def)

lemma bench_gyro_scaled:
  "scaled_gyros (bench_drivers a (raw_gyro 4 6 8))
     (accum_sum (map gyro_axes (replicate 3 (raw_gyro 4 6 8))) (0, 0, 0)) (of_nat 3) =
   (Num 3, Num 2, Num (- 4))"
  using averages_replicate [of 3 gyro_axes "raw_gyro 4 6 8" 4 6 8]
  by (simp add: scaled_gyros_def bench_drivers_def sums_fit_def gyro_axes_def raw_gyro_def)

section \<open>Claims on the sensor task\<close>

text \<open>
  C9.  In a tick whose accel FIFO gives \<open>n\<close> times the raw triple \<open>(a, b, c)\<close> and whose
  gyro FIFO gives \<open>m\<close> times a raw triple, the sums not overflowing, the averages are
  the remapped triples \<open>(b, a, -c)\<close> for both sensors; the published accel sample is
  \<open>(b, a, -c)\<close> minus the bias, times the scale, and the gyro sample pushed to the queue
  is \<open>(b, a, -c)\<close> times the scale.
\<close>

theorem axis_remap:
  assumes "fifo_burst (PIOS_BMA180_ReadFifo drv) ka (replicate n sa) la"
    and "fifo_burst (PIOS_MPU6000_ReadFifo drv) kg (replicate m sg) lg"
    and "sums_fit n (accel_axes sa)" and "sums_fit m (gyro_axes sg)"
    and "PIOS_BMA180_GetScale drv = Num ascale" and "PIOS_MPU6000_GetScale drv = Num gscale"
    and "accelbias st = (b0, b1, b2)"
  shows "\<exists>st'. updateSensors drv st = Some (0, st')
     \<and> averages (accel_accum st') (accel_samples st') =
         (Num (real_of_int (sint (bma_y sa))), Num (real_of_int (sint (bma_x sa))),
          Num (- real_of_int (sint (bma_z sa))))
     \<and> averages (gyro_accum st') (gyro_samples st') =
         (Num (real_of_int (sint (gyro_y sg))), Num (real_of_int (sint (gyro_x sg))),
          Num (- real_of_int (sint (gyro_z sg))))
     \<and> accels_vec (Accels st') =
         (Num ((real_of_int (sint (bma_y sa)) - real_of_int (sint b0)) * ascale),
          Num ((real_of_int (sint (bma_x sa)) - real_of_int (sint b1)) * ascale),
          Num ((- real_of_int (sint (bma_z sa)) - real_of_int (sint b2)) * ascale))
     \<and> (length (gyroQueue st) < SENSOR_QUEUE_SIZE \<longrightarrow>
          map gyros_vec (gyroQueue st') = map gyros_vec (gyroQueue st) @
            [(Num (real_of_int (sint (gyro_y sg)) * gscale),
              Num (real_of_int (sint (gyro_x sg)) * gscale),
              Num (- real_of_int (sint (gyro_z sg)) * gscale))])"
proof -
  have n: "0 < n" "0 < m" using assms(1,2) by (auto simp: fifo_burst_def)
  obtain a0 a1 a2 where aa: "accel_axes sa = (a0, a1, a2)" by (cases "accel_axes sa")
  obtain g0 g1 g2 where gg: "gyro_axes sg = (g0, g1, g2)" by (cases "gyro_axes sg")
  have av: "averages (accum_sum (map accel_axes (replicate n sa)) (0, 0, 0)) (of_nat n) =
       (Num (real_of_int (sint a1)), Num (real_of_int (sint a0)), Num (- real_of_int (sint a2)))"
    using averages_replicate [of n accel_axes sa a0 a1 a2] n(1) assms(3) aa by simp
  have gv: "averages (accum_sum (map gyro_axes (replicate m sg)) (0, 0, 0)) (of_nat m) =
       (Num (real_of_int (sint g1)), Num (real_of_int (sint g0)), Num (- real_of_int (sint g2)))"
    using averages_replicate [of m gyro_axes sg g0 g1 g2] n(2) assms(4) gg by simp
  have ax: "a0 = bma_x sa" "a1 = bma_y sa" "a2 = bma_z sa" using aa by (simp_all add: accel_axes_def)
  have gx: "g0 = gyro_x sg" "g1 = gyro_y sg" "g2 = gyro_z sg" using gg by (simp_all add: gyro_axes_def)
  show ?thesis
    unfolding updateSensors_burst [OF assms(1,2)]
    using av gv
    by (simp add: mag_stage_keeps gyro_stage_keeps ax gx)
       (simp add: accel_stage_def gyro_stage_def Let_def assms(5-7) accels_vec_def gyros_vec_def
          fsub_def float_of_int16_def xQueueSendToBack_def split: prod.splits)
qed

theorem axis_remap_witness:
  "tick_Accels (updateSensors (bench_drivers (raw_accel 10 (- 10) 7) (raw_gyro 4 6 8)) static_init) =
      Some (Num (- 10 * (1 / 4)), Num (10 * (1 / 4)), Num (- 7 * (1 / 4)))
   \<and> tick_gyroQueue (updateSensors (bench_drivers (raw_accel 10 (- 10) 7) (raw_gyro 4 6 8)) static_init) =
      Some [(Num (6 * (1 / 2)), Num (4 * (1 / 2)), Num (- 8 * (1 / 2)))]"
proof -
  have s: "PIOS_BMA180_GetScale (bench_drivers (raw_accel 10 (- 10) 7) (raw_gyro 4 6 8)) = Num (1 / 4)"
     "PIOS_MPU6000_GetScale (bench_drivers (raw_accel 10 (- 10) 7) (raw_gyro 4 6 8)) = Num (1 / 2)"
     "accelbias static_init = (0, 0, 0)"
    by (simp_all add: bench_drivers_def static_init_def)
  have q: "gyroQueue static_init = []" by (simp add: static_init_def)
  show ?thesis
    using axis_remap [OF bench_bursts bench_fit s]
    by (auto simp: tick_Accels_def tick_gyroQueue_def raw_accel_def raw_gyro_def q
        SENSOR_QUEUE_SIZE_def)
qed

text \<open>
  C8 as stated fails: the bias is subtracted after the channels are swapped.  With
  \<^verbatim>\<open>accelbias\<close> \<open>(10, -10, 0)\<close>, raw samples \<open>(10, -10, 7)\<close> and scale \<open>1/4\<close> the
  published accel is \<open>(-5, 5, -7/4)\<close>.
\<close>

theorem accel_bias_not_cancelled:
  "accelbias biased_state = (10, - 10, 0)
   \<and> tick_Accels (updateSensors (bench_drivers (raw_accel 10 (- 10) 7) (raw_gyro 4 6 8)) biased_state) =
       Some (Num (- 5), Num 5, Num (- 7 / 4))"
proof -
  have b: "accelbias biased_state = (10, - 10, 0)" by (simp add: biased_state_def)
  have s: "PIOS_BMA180_GetScale (bench_drivers (raw_accel 10 (- 10) 7) (raw_gyro 4 6 8)) = Num (1 / 4)"
    by (simp add: bench_drivers_def)
  have "accels_vec (Accels (accel_stage (bench_drivers (raw_accel 10 (- 10) 7) (raw_gyro 4 6 8))
            (of_nat 2, accum_sum (map accel_axes (replicate 2 (raw_accel 10 (- 10) 7))) (0, 0, 0),
             raw_accel 10 (- 10) 7) biased_state)) =
          (Num (- 5), Num 5, Num (- 7 / 4))"
    using accel_stage_replicate [OF _ bench_fit(1) s b, of "raw_accel 10 (- 10) 7"]
    by (simp add: raw_accel_def)
  then show ?thesis
    unfolding updateSensors_burst [OF bench_bursts]
    by (simp add: b tick_Accels_def mag_stage_keeps gyro_stage_keeps)
qed

text \<open>
  C8, amended.  With \<^verbatim>\<open>accelbias\<close> \<open>(10, -10, 0)\<close>, raw samples \<open>(-10, 10, c)\<close>, whose
  remapped x and y are the bias, give a published accel with x and y equal to 0.
\<close>

theorem accel_bias_cancels_remapped:
  assumes "fifo_burst (PIOS_BMA180_ReadFifo drv) ka (replicate n s) la"
    and "fifo_burst (PIOS_MPU6000_ReadFifo drv) kg gs lg"
    and "bma_x s = - 10" and "bma_y s = 10"
    and "sums_fit n (accel_axes s)"
    and "accelbias st = (10, - 10, 0)"
    and "PIOS_BMA180_GetScale drv = Num ascale"
  shows "\<exists>st'. updateSensors drv st = Some (0, st')
           \<and> accels_x (Accels st') = Num 0 \<and> accels_y (Accels st') = Num 0"
proof -
  have n: "0 < n" using assms(1) by (auto simp: fifo_burst_def)
  show ?thesis
    unfolding updateSensors_burst [OF assms(1,2)]
    using accel_stage_replicate [OF n assms(5,7,6), of la]
    by (simp add: mag_stage_keeps gyro_stage_keeps accels_vec_def assms(3,4))
qed

theorem accel_bias_cancels_remapped_witness:
  "tick_Accels (updateSensors (bench_drivers (raw_accel (- 10) 10 7) (raw_gyro 4 6 8)) biased_state) =
       Some (Num 0, Num 0, Num (- 7 / 4))"
proof -
  have b: "accelbias biased_state = (10, - 10, 0)" by (simp add: biased_state_def)
  have s: "PIOS_BMA180_GetScale (bench_drivers (raw_accel (- 10) 10 7) (raw_gyro 4 6 8)) = Num (1 / 4)"
    by (simp add: bench_drivers_def)
  have f: "sums_fit 2 (accel_axes (raw_accel (- 10) 10 7))"
    by (simp add: sums_fit_def accel_axes_def raw_accel_def)
  have x: "bma_x (raw_accel (- 10) 10 7) = - 10" "bma_y (raw_accel (- 10) 10 7) = 10"
    by (simp_all add: raw_accel_def)
  have z: "accels_vec (Accels (accel_stage (bench_drivers (raw_accel (- 10) 10 7) (raw_gyro 4 6 8))
            (of_nat 2, accum_sum (map accel_axes (replicate 2 (raw_accel (- 10) 10 7))) (0, 0, 0),
             raw_accel (- 10) 10 7) biased_state)) =
          (Num 0, Num 0, Num (- 7 / 4))"
    using accel_stage_replicate [OF _ f s b, of "raw_accel (- 10) 10 7"]
    by (simp add: raw_accel_def)
  show ?thesis
    using accel_bias_cancels_remapped [OF bench_bursts x f b s] z
    unfolding updateSensors_burst [OF bench_bursts]
    by (simp add: tick_Accels_def mag_stage_keeps gyro_stage_keeps)
qed

text \<open>
  C6.  In every tick that returns, the gyro sample pushed to the queue (when the queue
  has room) is the scaled average without any bias; the sample set on the bus is that
  sample with \<^verbatim>\<open>gyro_bias\<close> added to each axis when \<^verbatim>\<open>bias_correct_gyro\<close> is set, and the
  sample itself otherwise; and the z bias becomes the old z bias minus the z rate set
  on the bus times \<^verbatim>\<open>yawBiasRate\<close>.
\<close>

theorem gyro_queue_raw_bus_corrected:
  assumes "updateSensors drv st = Some (rc, st')"
    and "gyro_bias st = (b0, b1, b2)"
  shows "\<exists>raw. gyros_vec raw = scaled_gyros drv (gyro_accum st') (gyro_samples st')
     \<and> gyroQueue st' =
         (if length (gyroQueue st) < SENSOR_QUEUE_SIZE then gyroQueue st @ [raw] else gyroQueue st)
     \<and> gyros_vec (Gyros st') =
         (if bias_correct_gyro st
          then (fadd (gyros_x raw) b0, fadd (gyros_y raw) b1, fadd (gyros_z raw) b2)
          else gyros_vec raw)
     \<and> gyro_bias st' = (b0, b1, fsub b2 (fmul (gyros_z (Gyros st')) (yawBiasRate st)))"
proof -
  obtain ra rg where st': "st' = mag_stage drv (gyro_stage drv rg (accel_stage drv ra st))"
    using updateSensors_stages [OF assms(1)] by blast
  obtain count acc lg where rg: "rg = (count, acc, lg)" by (cases rg)
  obtain g0 g1 g2 where av: "averages acc count = (g0, g1, g2)"
    by (cases "averages acc count")
  let ?raw = "\<lparr>gyros_x = fmul g0 (PIOS_MPU6000_GetScale drv),
               gyros_y = fmul g1 (PIOS_MPU6000_GetScale drv),
               gyros_z = fmul g2 (PIOS_MPU6000_GetScale drv),
               gyros_temperature =
                 fadd (Num 35) (fdiv (fadd (float_of_int32 (mpu_temperature lg)) (Num 512)) (Num 340))\<rparr>"
  have "gyros_vec ?raw = scaled_gyros drv (gyro_accum st') (gyro_samples st')"
    by (simp add: st' rg mag_stage_keeps gyro_stage_def Let_def av accel_stage_keeps assms(2)
        gyros_vec_def scaled_gyros_def)
  moreover have "gyroQueue st' =
         (if length (gyroQueue st) < SENSOR_QUEUE_SIZE then gyroQueue st @ [?raw] else gyroQueue st)"
    by (simp add: st' rg mag_stage_keeps gyro_stage_def Let_def av accel_stage_keeps assms(2)
        xQueueSendToBack_def)
  moreover have "gyros_vec (Gyros st') =
         (if bias_correct_gyro st
          then (fadd (gyros_x ?raw) b0, fadd (gyros_y ?raw) b1, fadd (gyros_z ?raw) b2)
          else gyros_vec ?raw)"
    by (simp add: st' rg mag_stage_keeps gyro_stage_def Let_def av accel_stage_keeps assms(2)
        gyros_vec_def)
  moreover have "gyro_bias st' = (b0, b1, fsub b2 (fmul (gyros_z (Gyros st')) (yawBiasRate st)))"
    by (simp add: st' rg mag_stage_keeps gyro_stage_def Let_def av accel_stage_keeps assms(2)
        fsub_def fmul_fneg)
  ultimately show ?thesis by blast
qed

theorem gyro_queue_raw_bus_corrected_witness:
  "tick_gyroQueue (updateSensors (bench_drivers (raw_accel 10 (- 10) 7) (raw_gyro 4 6 8)) drifting_state) =
      Some [(Num 3, Num 2, Num (- 4))]
   \<and> tick_Gyros (updateSensors (bench_drivers (raw_accel 10 (- 10) 7) (raw_gyro 4 6 8)) drifting_state) =
      Some (Num 4, Num 4, Num (- 1))
   \<and> tick_gyro_bias (updateSensors (bench_drivers (raw_accel 10 (- 10) 7) (raw_gyro 4 6 8)) drifting_state) =
      Some (Num 1, Num 2, Num (7 / 2))"
proof -
  have b: "gyro_bias drifting_state = (Num 1, Num 2, Num 3)" by (simp add: drifting_state_def)
  have d: "gyroQueue drifting_state = []" "bias_correct_gyro drifting_state"
    "yawBiasRate drifting_state = Num (1 / 2)"
    by (simp_all add: drifting_state_def static_init_def)
  obtain st' where u:
    "updateSensors (bench_drivers (raw_accel 10 (- 10) 7) (raw_gyro 4 6 8)) drifting_state = Some (0, st')"
    and g: "gyro_accum st' = accum_sum (map gyro_axes (replicate 3 (raw_gyro 4 6 8))) (0, 0, 0)"
      "gyro_samples st' = of_nat 3"
    unfolding updateSensors_burst [OF bench_bursts]
    by (simp add: mag_stage_keeps gyro_stage_samples)
  obtain raw where r:
    "gyros_vec raw = scaled_gyros (bench_drivers (raw_accel 10 (- 10) 7) (raw_gyro 4 6 8))
        (gyro_accum st') (gyro_samples st')"
    "gyroQueue st' = (if length (gyroQueue drifting_state) < SENSOR_QUEUE_SIZE
        then gyroQueue drifting_state @ [raw] else gyroQueue drifting_state)"
    "gyros_vec (Gyros st') =
         (if bias_correct_gyro drifting_state
          then (fadd (gyros_x raw) (Num 1), fadd (gyros_y raw) (Num 2), fadd (gyros_z raw) (Num 3))
          else gyros_vec raw)"
    "gyro_bias st' = (Num 1, Num 2,
        fsub (Num 3) (fmul (gyros_z (Gyros st')) (yawBiasRate drifting_state)))"
    using gyro_queue_raw_bus_corrected [OF u b] by blast
  have v: "gyros_vec raw = (Num 3, Num 2, Num (- 4))"
    using r(1) g bench_gyro_scaled by simp
  then have c: "gyros_x raw = Num 3" "gyros_y raw = Num 2" "gyros_z raw = Num (- 4)"
    by (simp_all add: gyros_vec_def)
  have G: "gyros_vec (Gyros st') = (Num 4, Num 4, Num (- 1))"
    using r(3) by (simp add: d c)
  then have z: "gyros_z (Gyros st') = Num (- 1)" by (simp add: gyros_vec_def)
  show ?thesis
    using r(2,4) v G
    by (simp add: u tick_gyroQueue_def tick_Gyros_def tick_gyro_bias_def d z fsub_def
        SENSOR_QUEUE_SIZE_def)
qed

text \<open>
  C3 as stated fails.  When the accel FIFO never has a sample, the tick does not return:
  \<^verbatim>\<open>updateSensors\<close> spins in its first loop, no alarm is set and the task makes no next
  turn.
\<close>

theorem empty_fifo_stalls_tick:
  "updateSensors dry_drivers static_init = None
   \<and> SensorTask_tick dry_drivers 8000 8000 (1, static_init) = None"
proof -
  have "\<forall>j. fst (PIOS_BMA180_ReadFifo dry_drivers j) \<noteq> 0"
    by (simp add: dry_drivers_def fifo_script_def)
  then have "updateSensors dry_drivers st = None" for st
    using updateSensors_dry by blast
  then show ?thesis
    by (simp add: SensorTask_tick_def split: prod.splits)
qed

text \<open>
  C3, amended.  A tick cannot end with zero samples.  When each FIFO, after any number
  of empty polls, gives at least one and fewer than \<open>2\<^sup>3\<^sup>2\<close> samples, \<^verbatim>\<open>updateSensors\<close>
  returns 0 with the two counts equal to the numbers of samples, so that neither
  divisor is zero, and the task clears the ATTITUDE alarm and strokes the watchdog.
  \<^verbatim>\<open>updateSensors\<close> returns 0 whenever it returns, so the task never sets ERROR after
  it; and when a FIFO never has a sample, neither \<^verbatim>\<open>updateSensors\<close> nor the turn of the
  task returns.
\<close>

theorem tick_counts_at_least_one_sample:
  assumes "fifo_burst (PIOS_BMA180_ReadFifo drv) ka as la"
    and "fifo_burst (PIOS_MPU6000_ReadFifo drv) kg gs lg"
    and "length as < 2 ^ 32" and "length gs < 2 ^ 32"
  shows "(\<exists>st'. updateSensors drv st = Some (0, st')
            \<and> unat (accel_samples st') = length as \<and> unat (gyro_samples st') = length gs
            \<and> float_of_uint32 (accel_samples st') \<noteq> Num 0
            \<and> float_of_uint32 (gyro_samples st') \<noteq> Num 0)
     \<and> (\<exists>init' st'. SensorTask_tick drv t1 t2 (init, st) = Some (init', st')
            \<and> alarm_ATTITUDE st' = CLEARED \<and> wdg_SENSORS st' = Suc (wdg_SENSORS st))
     \<and> (\<forall>rc st'. updateSensors d st = Some (rc, st') \<longrightarrow> rc = 0)
     \<and> ((\<forall>j. fst (PIOS_BMA180_ReadFifo d j) \<noteq> 0) \<or> (\<forall>j. fst (PIOS_MPU6000_ReadFifo d j) \<noteq> 0)
          \<longrightarrow> updateSensors d st = None \<and> SensorTask_tick d t1 t2 (init, st) = None)"
proof (intro conjI)
  have n: "0 < length as" "0 < length gs" using assms(1,2) by (auto simp: fifo_burst_def)
  show "\<exists>st'. updateSensors drv st = Some (0, st')
            \<and> unat (accel_samples st') = length as \<and> unat (gyro_samples st') = length gs
            \<and> float_of_uint32 (accel_samples st') \<noteq> Num 0
            \<and> float_of_uint32 (gyro_samples st') \<noteq> Num 0"
    unfolding updateSensors_burst [OF assms(1,2)]
    using n assms(3,4)
    by (simp add: mag_stage_keeps gyro_stage_keeps gyro_stage_samples accel_stage_samples
        count_nonzero unat_count)
  obtain i1 s1 where sg: "select_gains t1 t2 (init, st) = (i1, s1)"
    by (cases "select_gains t1 t2 (init, st)")
  have w: "wdg_SENSORS s1 = wdg_SENSORS st" using select_gains_wdg [of t1 t2 init st] sg by simp
  show "\<exists>init' st'. SensorTask_tick drv t1 t2 (init, st) = Some (init', st')
            \<and> alarm_ATTITUDE st' = CLEARED \<and> wdg_SENSORS st' = Suc (wdg_SENSORS st)"
    by (simp add: SensorTask_tick_def sg updateSensors_burst [OF assms(1,2)] mag_stage_keeps
        gyro_stage_wdg accel_stage_keeps w)
  show "\<forall>rc st'. updateSensors d st = Some (rc, st') \<longrightarrow> rc = 0"
    using updateSensors_rc by blast
  show "(\<forall>j. fst (PIOS_BMA180_ReadFifo d j) \<noteq> 0) \<or> (\<forall>j. fst (PIOS_MPU6000_ReadFifo d j) \<noteq> 0)
          \<longrightarrow> updateSensors d st = None \<and> SensorTask_tick d t1 t2 (init, st) = None"
    using updateSensors_dry [of d]
    by (auto simp: SensorTask_tick_def split: prod.splits)
qed

theorem tick_counts_at_least_one_sample_witness:
  "tick_samples (updateSensors (bench_drivers (raw_accel 10 (- 10) 7) (raw_gyro 4 6 8)) static_init) =
      Some (0, 2, 3)
   \<and> tick_alarm (SensorTask_tick (bench_drivers (raw_accel 10 (- 10) 7) (raw_gyro 4 6 8)) 8000 8000
        (1, static_init)) = Some CLEARED
   \<and> updateSensors dry_drivers static_init = None"
proof -
  have d: "\<forall>j. fst (PIOS_BMA180_ReadFifo dry_drivers j) \<noteq> 0"
    by (simp add: dry_drivers_def fifo_script_def)
  show ?thesis
    using tick_counts_at_least_one_sample [OF bench_bursts, of "raw_accel 10 (- 10) 7" "raw_gyro 4 6 8"
        static_init 8000 8000 1 dry_drivers] d
    by (auto simp: tick_samples_def tick_alarm_def)
qed

text \<open>
  C2.  The settings callback sets \<^verbatim>\<open>rotate\<close> to 1 and computes \<^verbatim>\<open>R\<close> for every board
  rotation that is not zero, but the tick reads neither: what it sets on the bus and
  pushes to the queues is the same for every value of \<^verbatim>\<open>rotate\<close> and \<^verbatim>\<open>R\<close>.
\<close>

theorem rotation_is_not_applied:
  "rotate (settingsUpdatedCb cc st) =
      (if BoardRotation (AttitudeSettings st) = (0, 0, 0) then 0 else 1)
   \<and> tick_Accels (updateSensors drv (st\<lparr>rotate := r, R := m\<rparr>)) = tick_Accels (updateSensors drv st)
   \<and> tick_accelQueue (updateSensors drv (st\<lparr>rotate := r, R := m\<rparr>)) =
       tick_accelQueue (updateSensors drv st)
   \<and> tick_Gyros (updateSensors drv (st\<lparr>rotate := r, R := m\<rparr>)) = tick_Gyros (updateSensors drv st)
   \<and> tick_gyroQueue (updateSensors drv (st\<lparr>rotate := r, R := m\<rparr>)) =
       tick_gyroQueue (updateSensors drv st)"
proof -
  have "rotate (settingsUpdatedCb cc st) =
      (if BoardRotation (AttitudeSettings st) = (0, 0, 0) then 0 else 1)"
    by (cases "BoardRotation (AttitudeSettings st)"; cases "GyroBias (AttitudeSettings st)")
       (simp add: settingsUpdatedCb_def Let_def)
  then show ?thesis
    by (simp add: tick_Accels_def tick_accelQueue_def tick_Gyros_def tick_gyroQueue_def
        updateSensors_def mag_stage_keeps gyro_stage_keeps stages_ignore_rotation
        split: option.splits)
qed

theorem rotation_is_not_applied_witness:
  "rotate (settingsUpdatedCb no_conversions rotated_state) = 1
   \<and> tick_Accels (updateSensors (bench_drivers (raw_accel 10 (- 10) 7) (raw_gyro 4 6 8)) rotated_state) =
       Some (Num (- 10 * (1 / 4)), Num (10 * (1 / 4)), Num (- 7 * (1 / 4)))
   \<and> tick_gyroQueue (updateSensors (bench_drivers (raw_accel 10 (- 10) 7) (raw_gyro 4 6 8)) rotated_state) =
       Some [(Num (6 * (1 / 2)), Num (4 * (1 / 2)), Num (- 8 * (1 / 2)))]"
proof -
  have r: "rotated_state = (static_init\<lparr>AttitudeSettings := (AttitudeSettings static_init)\<lparr>BoardRotation := (0, 0, 90)\<rparr>\<rparr>)\<lparr>rotate := 1, R := yaw_90\<rparr>"
    by (simp add: rotated_state_def)
  have s: "PIOS_BMA180_GetScale (bench_drivers (raw_accel 10 (- 10) 7) (raw_gyro 4 6 8)) = Num (1 / 4)"
     "PIOS_MPU6000_GetScale (bench_drivers (raw_accel 10 (- 10) 7) (raw_gyro 4 6 8)) = Num (1 / 2)"
    by (simp_all add: bench_drivers_def)
  let ?st = "static_init\<lparr>AttitudeSettings := (AttitudeSettings static_init)\<lparr>BoardRotation := (0, 0, 90)\<rparr>\<rparr>"
  have b: "accelbias ?st = (0, 0, 0)" "gyroQueue ?st = []"
    by (simp_all add: static_init_def)
  have n: "(0::nat) < 2" "(0::nat) < 3" by simp_all
  have a: "tick_Accels (updateSensors (bench_drivers (raw_accel 10 (- 10) 7) (raw_gyro 4 6 8)) ?st) =
       Some (Num (- 10 * (1 / 4)), Num (10 * (1 / 4)), Num (- 7 * (1 / 4)))"
    unfolding updateSensors_burst [OF bench_bursts]
    using accel_stage_replicate [OF n(1) bench_fit(1) s(1) b(1), of "raw_accel 10 (- 10) 7"]
    by (simp add: tick_Accels_def mag_stage_keeps gyro_stage_keeps raw_accel_def)
  have g: "tick_gyroQueue (updateSensors (bench_drivers (raw_accel 10 (- 10) 7) (raw_gyro 4 6 8)) ?st) =
       Some [(Num (6 * (1 / 2)), Num (4 * (1 / 2)), Num (- 8 * (1 / 2)))]"
    unfolding updateSensors_burst [OF bench_bursts]
    using bench_gyro_scaled [of "raw_accel 10 (- 10) 7"]
    by (simp add: tick_gyroQueue_def mag_stage_keeps gyro_stage_def Let_def accel_stage_keeps b
        xQueueSendToBack_def SENSOR_QUEUE_SIZE_def gyros_vec_def scaled_gyros_def s
        split: prod.splits)
  have c: "rotate (settingsUpdatedCb no_conversions rotated_state) = 1"
    using rotation_is_not_applied [where cc = no_conversions and st = rotated_state]
    by (simp add: rotated_state_def static_init_def)
  show ?thesis
    using rotation_is_not_applied [where cc = no_conversions and st = ?st
        and drv = "bench_drivers (raw_accel 10 (- 10) 7) (raw_gyro 4 6 8)" and r = 1
        and m = yaw_90] a g c
    by (simp add: r)
qed

text \<open>
  C7 as stated fails: a tick with no override and \<open>init\<close> already 1 takes none of the
  three branches.  At tick 8000, disarmed, with \<open>init = 1\<close>, \<^verbatim>\<open>accelKp\<close> stays 5: it is
  neither forced to 1 nor reloaded from the settings, where it is 2.
\<close>

theorem no_branch_when_initialised:
  "\<not> override 8000 8000 cruise_state
   \<and> select_gains 8000 8000 (1, cruise_state) = (1, cruise_state)
   \<and> accelKp cruise_state = Num 5 \<and> AccelKp (AttitudeSettings cruise_state) = Num 2"
  by (simp add: override_def cruise_state_def static_init_def select_gains_def)

text \<open>
  C7, amended.  On each tick at most one of three branches is taken, in this order.
  With the tick count below 7000 at the first reading and above 1000 at the second, or
  else with \<^verbatim>\<open>zero_during_arming\<close> set and the flight status ARMING, the gains are forced to
  \<open>1\<close>, \<open>0.9\<close> and \<open>0.23\<close> and \<open>init\<close> is cleared.  Otherwise, with \<open>init = 0\<close>, the three
  gains are reloaded from the settings and \<open>init\<close> becomes 1.  Otherwise nothing changes;
  so after a tick that reloaded, a next tick without override changes nothing.
\<close>

theorem gain_branches:
  "(override t1 t2 st \<longrightarrow>
      fst (select_gains t1 t2 (init, st)) = 0
      \<and> accelKp (snd (select_gains t1 t2 (init, st))) = Num 1
      \<and> accelKi (snd (select_gains t1 t2 (init, st))) = Num (9 / 10)
      \<and> yawBiasRate (snd (select_gains t1 t2 (init, st))) = Num (23 / 100))
   \<and> (\<not> override t1 t2 st \<and> init = 0 \<longrightarrow>
      fst (select_gains t1 t2 (init, st)) = 1
      \<and> accelKp (snd (select_gains t1 t2 (init, st))) = AccelKp (AttitudeSettings st)
      \<and> accelKi (snd (select_gains t1 t2 (init, st))) = AccelKi (AttitudeSettings st)
      \<and> yawBiasRate (snd (select_gains t1 t2 (init, st))) = YawBiasRate (AttitudeSettings st))
   \<and> (\<not> override t1 t2 st \<and> init \<noteq> 0 \<longrightarrow> select_gains t1 t2 (init, st) = (init, st))
   \<and> (\<not> override t1 t2 st \<and> \<not> override t3 t4 st \<longrightarrow>
        select_gains t3 t4 (select_gains t1 t2 (0, st)) = select_gains t1 t2 (0, st))"
proof (intro conjI impI)
  assume o: "override t1 t2 st"
  then have forced: "select_gains t1 t2 (init, st) = (0, bootstrap_gains st)"
    by (auto simp: select_gains_def override_def)
  show "fst (select_gains t1 t2 (init, st)) = 0"
    and "accelKp (snd (select_gains t1 t2 (init, st))) = Num 1"
    and "accelKi (snd (select_gains t1 t2 (init, st))) = Num (9 / 10)"
    and "yawBiasRate (snd (select_gains t1 t2 (init, st))) = Num (23 / 100)"
    by (simp_all add: forced bootstrap_gains_def)
next
  assume n: "\<not> override t1 t2 st \<and> init = 0"
  then have reload: "select_gains t1 t2 (init, st) =
      (1, st\<lparr>accelKi := AccelKi (AttitudeSettings st), accelKp := AccelKp (AttitudeSettings st),
             yawBiasRate := YawBiasRate (AttitudeSettings st)\<rparr>)"
    by (auto simp: select_gains_def override_def)
  show "fst (select_gains t1 t2 (init, st)) = 1"
    and "accelKp (snd (select_gains t1 t2 (init, st))) = AccelKp (AttitudeSettings st)"
    and "accelKi (snd (select_gains t1 t2 (init, st))) = AccelKi (AttitudeSettings st)"
    and "yawBiasRate (snd (select_gains t1 t2 (init, st))) = YawBiasRate (AttitudeSettings st)"
    by (simp_all add: reload)
next
  assume "\<not> override t1 t2 st \<and> init \<noteq> 0"
  then show "select_gains t1 t2 (init, st) = (init, st)"
    by (auto simp: select_gains_def override_def)
next
  assume n: "\<not> override t1 t2 st \<and> \<not> override t3 t4 st"
  then have first: "select_gains t1 t2 (0, st) =
      (1, st\<lparr>accelKi := AccelKi (AttitudeSettings st), accelKp := AccelKp (AttitudeSettings st),
             yawBiasRate := YawBiasRate (AttitudeSettings st)\<rparr>)"
    by (auto simp: select_gains_def override_def)
  show "select_gains t3 t4 (select_gains t1 t2 (0, st)) = select_gains t1 t2 (0, st)"
    using n unfolding first by (auto simp: select_gains_def override_def)
qed

theorem gain_branches_witness:
  "select_gains 8000 8000 (0, cruise_state) =
     (1, cruise_state\<lparr>accelKi := Num 3, accelKp := Num 2, yawBiasRate := Num 4\<rparr>)
   \<and> fst (select_gains 5000 5000 (1, cruise_state)) = 0
   \<and> accelKp (snd (select_gains 5000 5000 (1, cruise_state))) = Num 1
   \<and> select_gains 8002 8002 (select_gains 8000 8000 (0, cruise_state)) =
       select_gains 8000 8000 (0, cruise_state)"
  using gain_branches [of 8000 8000 cruise_state 0 8002 8002]
    gain_branches [of 5000 5000 cruise_state 1 0 0]
  by (simp add: override_def cruise_state_def static_init_def select_gains_def)

end
